theory Spec2Isabelle
  imports Main "HOL-Library.AList"
begin

section \<open>Python strings\<close>

text \<open>
  A Python \<open>str\<close> is a sequence of Unicode code points, and \<open>len\<close> counts code points.
  The model is a list of code points; \<open>ascii\<close> reads an ASCII literal of the source.
\<close>

type_synonym pystr = "nat list"
type_synonym bytes = "nat list"

definition ascii :: "string \<Rightarrow> pystr" where
  "ascii s = map of_char s"

text \<open>\<open>sep.join(parts)\<close>.\<close>

fun join :: "pystr \<Rightarrow> pystr list \<Rightarrow> pystr" where
  "join sep [] = []"
| "join sep [x] = x"
| "join sep (x # y # ys) = x @ sep @ join sep (y # ys)"

text \<open>
  \<open>str.strip()\<close> without argument removes leading and trailing white space, the code
  points for which \<open>str.isspace\<close> holds.
\<close>

definition isspace :: "nat \<Rightarrow> bool" where
  "isspace c = (c \<in> {9, 10, 11, 12, 13, 28, 29, 30, 31, 32, 133, 160, 5760,
                      8232, 8233, 8239, 8287, 12288} \<or> (8192 \<le> c \<and> c \<le> 8202))"

definition lstrip :: "pystr \<Rightarrow> pystr" where
  "lstrip s = dropWhile isspace s"

definition rstrip :: "pystr \<Rightarrow> pystr" where
  "rstrip s = rev (dropWhile isspace (rev s))"

definition strip :: "pystr \<Rightarrow> pystr" where
  "strip s = rstrip (lstrip s)"

definition startswith :: "pystr \<Rightarrow> pystr \<Rightarrow> bool" where
  "startswith s p = (take (length p) s = p)"

definition endswith :: "pystr \<Rightarrow> pystr \<Rightarrow> bool" where
  "endswith s p = (length p \<le> length s \<and> drop (length s - length p) s = p)"

text \<open>\<open>needle in haystack\<close> on two strings: the needle occurs as a contiguous run.\<close>

definition str_contains :: "pystr \<Rightarrow> pystr \<Rightarrow> bool" where
  "str_contains haystack needle =
     list_ex (\<lambda>i. take (length needle) (drop i haystack) = needle) [0 ..< Suc (length haystack)]"

section \<open>Docket sequencer (database.py)\<close>

text \<open>
  The decimal digits of a natural number, most significant first, as the conversion
  \<open>d\<close> of a format specification writes them.
\<close>

fun digits10 :: "nat \<Rightarrow> pystr" where
  "digits10 n = (if n < 10 then [48 + n] else digits10 (n div 10) @ [48 + n mod 10])"

declare digits10.simps [simp del]

text \<open>
  The format specification \<open>04d\<close>: sign-aware zero padding to a minimum width of four;
  a wider value is written in full.
\<close>

definition format_04d :: "int \<Rightarrow> pystr" where
  "format_04d v =
     (let ds = digits10 (nat \<bar>v\<bar>);
          sign = (if v < 0 then ascii ''-'' else [])
      in sign @ replicate (4 - (length sign + length ds)) 48 @ ds)"

text \<open>
  Modelled from the spec: the sequence \<open>docket_seq\<close> is declared in the schema, which is
  not among the sources; it is "a durable, monotonic integer counter", and \<open>nextval\<close>
  advances it by one and returns the new value.
\<close>

definition nextval :: "nat \<Rightarrow> nat \<times> nat" where
  "nextval seq = (Suc seq, Suc seq)"

text \<open>
  \<open>get_next_docket_number\<close>: \<open>result = nextval('docket_seq')\<close>, then
  \<open>f"IDF-{result:04d}"\<close>. The function takes the counter and returns the advanced
  counter with the docket number.
\<close>

definition get_next_docket_number :: "nat \<Rightarrow> nat \<times> pystr" where
  "get_next_docket_number seq =
     (let (seq', result) = nextval seq
      in (seq', ascii ''IDF-'' @ format_04d (int result)))"

text \<open>Reading a string of decimal digits back as a number.\<close>

definition isdigit :: "nat \<Rightarrow> bool" where
  "isdigit c = (48 \<le> c \<and> c \<le> 57)"

definition decimal_value :: "pystr \<Rightarrow> nat" where
  "decimal_value s = foldl (\<lambda>acc c. 10 * acc + (c - 48)) 0 s"

section \<open>Values decoded from JSON\<close>

text \<open>
  What \<open>json.loads\<close> returns: \<open>None\<close>, a bool, an int, a float, a str, a list or a
  dict. A dict keeps its keys in insertion order, so it is an association list. Of a
  float only its truth value is ever inspected: a finite float is a mantissa and an
  exponent, and is false exactly when the mantissa is zero.
\<close>

datatype pyfloat = Finite int int | Infinite bool | NaN

datatype json =
    JNull
  | JBool bool
  | JInt int
  | JFloat pyfloat
  | JStr pystr
  | JArr "json list"
  | JObj "(pystr \<times> json) list"

text \<open>
  The exceptions that reach a handler. \<open>ValueError\<close> carries the message the source
  gives it. \<open>JSONDecodeError\<close>, a subclass of \<open>ValueError\<close>, carries the text that
  \<open>str()\<close> gives for it; \<open>RecursionError\<close> is what the decoder raises on input nested
  too deeply. \<open>ClientError\<close> is the object store's; \<open>APIError\<close> the extraction
  collaborator's; \<open>IOError\<close> a failed read of the upload; \<open>RuntimeError\<close> a failure
  inside the PDF library. The relational driver raises
  \<open>DataError\<close> for a query argument that is not of the column's type,
  \<open>NotNullViolationError\<close> for a null in a column that forbids it,
  \<open>InFailedSQLTransactionError\<close> for a statement in a transaction that a failed statement
  has aborted, and \<open>DatabaseError\<close> for any other failure of a statement.
\<close>

datatype exc =
    ValueError pystr
  | JSONDecodeError pystr
  | RecursionError
  | RuntimeError pystr
  | TypeError
  | KeyError
  | AttributeError
  | ClientError pystr
  | APIError pystr
  | IOError pystr
  | DataError
  | NotNullViolationError
  | InFailedSQLTransactionError
  | DatabaseError pystr

text \<open>Truth value of a Python object, as \<open>not x\<close> and \<open>if x\<close> test it.\<close>

fun truthy :: "json \<Rightarrow> bool" where
  "truthy JNull = False"
| "truthy (JBool b) = b"
| "truthy (JInt i) = (i \<noteq> 0)"
| "truthy (JFloat (Finite m e)) = (m \<noteq> 0)"
| "truthy (JFloat (Infinite sg)) = True"
| "truthy (JFloat NaN) = True"
| "truthy (JStr s) = (s \<noteq> [])"
| "truthy (JArr xs) = (xs \<noteq> [])"
| "truthy (JObj kvs) = (kvs \<noteq> [])"

text \<open>
  \<open>field in data\<close> with a string on the left: a key of a dict, an element of a list, a
  substring of a string; any other right operand is not iterable.
\<close>

fun py_contains :: "json \<Rightarrow> pystr \<Rightarrow> exc + bool" where
  "py_contains (JObj kvs) k = Inr (map_of kvs k \<noteq> None)"
| "py_contains (JArr xs) k = Inr (JStr k \<in> set xs)"
| "py_contains (JStr s) k = Inr (str_contains s k)"
| "py_contains _ k = Inl TypeError"

text \<open>\<open>data[field]\<close> with a string index: only a dict accepts it.\<close>

fun py_getitem :: "json \<Rightarrow> pystr \<Rightarrow> exc + json" where
  "py_getitem (JObj kvs) k = (case map_of kvs k of None \<Rightarrow> Inl KeyError | Some v \<Rightarrow> Inr v)"
| "py_getitem _ k = Inl TypeError"

text \<open>\<open>data[field] = value\<close>: an existing key keeps its place, a new key goes last.\<close>

fun py_setitem :: "json \<Rightarrow> pystr \<Rightarrow> json \<Rightarrow> exc + json" where
  "py_setitem (JObj kvs) k v = Inr (JObj (AList.update k v kvs))"
| "py_setitem _ k v = Inl TypeError"

text \<open>\<open>d.get(key, default)\<close>: a method of dicts only.\<close>

fun py_get :: "json \<Rightarrow> pystr \<Rightarrow> json \<Rightarrow> exc + json" where
  "py_get (JObj kvs) k dflt = (case map_of kvs k of None \<Rightarrow> Inr dflt | Some v \<Rightarrow> Inr v)"
| "py_get _ k dflt = Inl AttributeError"

section \<open>Structured extraction (services/extractor.py)\<close>

text \<open>
  The collaborators of \<open>extract_disclosure_info\<close>: the configured API key; the chat
  completion call, which for a prompt raises or returns the message content (possibly
  \<open>None\<close>); \<open>json.loads\<close>, which raises (a \<open>JSONDecodeError\<close> for text that is not
  JSON, a \<open>RecursionError\<close> or a plain \<open>ValueError\<close> for some texts that are) or returns
  the decoded value; and \<open>str()\<close> of a value that is not a string, as an f-string
  applies it.
\<close>

record extraction_env =
  openai_api_key :: pystr
  chat_completions_create :: "pystr \<Rightarrow> exc + pystr option"
  json_loads :: "pystr \<Rightarrow> exc + json"
  py_str :: "json \<Rightarrow> pystr"

text \<open>
  \<open>EXTRACTION_PROMPT.format(document_text=...)\<close>: the text of the template before and
  after its one placeholder.
\<close>

definition EXTRACTION_PROMPT_head :: pystr where
  "EXTRACTION_PROMPT_head = ascii
     (''Analyze this document and extract patent disclosure information.'' @ [CHR 0x0A] @
      ''Return ONLY a valid JSON object with these fields:'' @ [CHR 0x0A] @
      ''- title: A concise title for the invention (string)'' @ [CHR 0x0A] @
      ''- description: What the invention is, explained in plain terms (string, 2-4 paragraphs)'' @ [CHR 0x0A] @
      ''- key_differences: What makes it different or novel compared to existing approaches (string, bullet points or paragraphs)'' @ [CHR 0x0A] @
      ''- inventors: Array of objects with '' @ [CHR 0x22] @ ''name'' @ [CHR 0x22] @ '' and '' @ [CHR 0x22] @ ''email'' @ [CHR 0x22] @ '' fields for each inventor/author mentioned'' @ [CHR 0x0A] @
      [CHR 0x0A] @
      ''If you cannot find inventors/authors, return an empty array for inventors.'' @ [CHR 0x0A] @
      ''If you cannot determine a field, make your best inference from the document content.'' @ [CHR 0x0A] @
      [CHR 0x0A] @
      ''Document text:'' @ [CHR 0x0A])"

definition EXTRACTION_PROMPT_tail :: pystr where
  "EXTRACTION_PROMPT_tail = ascii
     ([CHR 0x0A, CHR 0x0A] @
      ''Return ONLY the JSON object, no other text or markdown formatting.'')"

definition EXTRACTION_PROMPT_format :: "pystr \<Rightarrow> pystr" where
  "EXTRACTION_PROMPT_format document_text =
     EXTRACTION_PROMPT_head @ document_text @ EXTRACTION_PROMPT_tail"

text \<open>Truncation of a long document: \<open>max_chars = 50000\<close>.\<close>

definition truncate_document :: "pystr \<Rightarrow> pystr" where
  "truncate_document document_text =
     (if length document_text > 50000
      then take 50000 document_text @ ascii ([CHR 0x0A, CHR 0x0A] @ ''[Document truncated...]'')
      else document_text)"

text \<open>
  "Clean up potential markdown formatting": strip, drop a leading \<open>```json\<close>, drop a
  leading \<open>```\<close>, drop a trailing \<open>```\<close>, strip. The three tests are independent
  \<open>if\<close> statements, each on the result of the one before.
\<close>

definition clean_markdown :: "pystr \<Rightarrow> pystr" where
  "clean_markdown content0 =
     (let content1 = strip content0;
          content2 = (if startswith content1 (ascii ''```json'') then drop 7 content1 else content1);
          content3 = (if startswith content2 (ascii ''```'') then drop 3 content2 else content2);
          content4 = (if endswith content3 (ascii ''```'') then take (length content3 - 3) content3
                      else content3)
      in strip content4)"

text \<open>
  "Validate required fields": the first field that is missing or false raises.
\<close>

fun validate_required :: "pystr list \<Rightarrow> json \<Rightarrow> exc + unit" where
  "validate_required [] data = Inr ()"
| "validate_required (field # rest) data =
     (case py_contains data field of
        Inl e \<Rightarrow> Inl e
      | Inr False \<Rightarrow> Inl (ValueError (ascii ''Missing required field: '' @ field))
      | Inr True \<Rightarrow>
          (case py_getitem data field of
             Inl e \<Rightarrow> Inl e
           | Inr v \<Rightarrow>
               if \<not> truthy v then Inl (ValueError (ascii ''Missing required field: '' @ field))
               else validate_required rest data))"

text \<open>
  The bullet prefix of the f-string in the list conversion, as the source file has it:
  the four code points U+00E2, U+20AC, U+00A2 and a space.
\<close>

definition bullet_prefix :: pystr where
  "bullet_prefix = [0xE2, 0x20AC, 0xA2, 0x20]"

text \<open>\<open>f"{item}"\<close>: a string is inserted as it is, any other value through \<open>str()\<close>.\<close>

definition format_item :: "(json \<Rightarrow> pystr) \<Rightarrow> json \<Rightarrow> pystr" where
  "format_item to_str item = (case item of JStr s \<Rightarrow> s | _ \<Rightarrow> to_str item)"

definition bullet_join :: "(json \<Rightarrow> pystr) \<Rightarrow> json list \<Rightarrow> pystr" where
  "bullet_join to_str items =
     join (ascii [CHR 0x0A]) (map (\<lambda>item. bullet_prefix @ format_item to_str item) items)"

text \<open>"Ensure string fields are strings": a field that is a list is replaced by the join.\<close>

fun stringify_fields :: "(json \<Rightarrow> pystr) \<Rightarrow> pystr list \<Rightarrow> json \<Rightarrow> exc + json" where
  "stringify_fields to_str [] data = Inr data"
| "stringify_fields to_str (field # rest) data =
     (case py_getitem data field of
        Inl e \<Rightarrow> Inl e
      | Inr (JArr items) \<Rightarrow>
          (case py_setitem data field (JStr (bullet_join to_str items)) of
             Inl e \<Rightarrow> Inl e
           | Inr data' \<Rightarrow> stringify_fields to_str rest data')
      | Inr _ \<Rightarrow> stringify_fields to_str rest data)"

text \<open>"Ensure inventors is a list".\<close>

definition ensure_inventors :: "json \<Rightarrow> exc + json" where
  "ensure_inventors data =
     (case py_contains data (ascii ''inventors'') of
        Inl e \<Rightarrow> Inl e
      | Inr False \<Rightarrow> py_setitem data (ascii ''inventors'') (JArr [])
      | Inr True \<Rightarrow>
          (case py_getitem data (ascii ''inventors'') of
             Inl e \<Rightarrow> Inl e
           | Inr (JArr xs) \<Rightarrow> Inr data
           | Inr _ \<Rightarrow> py_setitem data (ascii ''inventors'') (JArr [])))"

definition required_fields :: "pystr list" where
  "required_fields = [ascii ''title'', ascii ''description'', ascii ''key_differences'']"

text \<open>
  The part of \<open>extract_disclosure_info\<close> after the collaborator has answered. Only a
  \<open>JSONDecodeError\<close> of the decoder is caught and raised again as \<open>ValueError\<close>; any
  other exception of the decoder goes on as it is.
\<close>

definition parse_extraction :: "extraction_env \<Rightarrow> pystr \<Rightarrow> exc + json" where
  "parse_extraction env content =
     (case json_loads env (clean_markdown content) of
        Inl (JSONDecodeError msg) \<Rightarrow>
          Inl (ValueError (ascii ''Invalid JSON response from AI: '' @ msg))
      | Inl e \<Rightarrow> Inl e
      | Inr data \<Rightarrow>
          (case validate_required required_fields data of
             Inl e \<Rightarrow> Inl e
           | Inr _ \<Rightarrow>
               (case stringify_fields (py_str env) required_fields data of
                  Inl e \<Rightarrow> Inl e
                | Inr data' \<Rightarrow> ensure_inventors data')))"

definition extract_disclosure_info :: "extraction_env \<Rightarrow> pystr \<Rightarrow> exc + json" where
  "extract_disclosure_info env document_text =
     (if openai_api_key env = [] then
        Inl (ValueError (ascii
          ''OpenAI API key not configured. Set OPENAI_API_KEY environment variable.''))
      else
        (case chat_completions_create env
                (EXTRACTION_PROMPT_format (truncate_document document_text)) of
           Inl e \<Rightarrow> Inl e
         | Inr None \<Rightarrow> Inl (ValueError (ascii ''Empty response from AI model''))
         | Inr (Some content) \<Rightarrow>
             if content = [] then Inl (ValueError (ascii ''Empty response from AI model''))
             else parse_extraction env content))"

subsection \<open>Example responses of the extraction collaborator\<close>

text \<open>
  An environment whose collaborator answers with a list for \<open>key_differences\<close>, the
  decoded form of
  \<^verbatim>\<open>{"title": "T", "description": "D", "key_differences": ["a", "b"]}\<close>.
\<close>

definition list_response :: json where
  "list_response = JObj
     [(ascii ''title'', JStr (ascii ''T'')),
      (ascii ''description'', JStr (ascii ''D'')),
      (ascii ''key_differences'', JArr [JStr (ascii ''a''), JStr (ascii ''b'')])]"

definition list_env :: extraction_env where
  "list_env = \<lparr>openai_api_key = ascii ''test-key'',
                chat_completions_create = (\<lambda>prompt. Inr (Some (ascii ''{...}''))),
                json_loads = (\<lambda>s. Inr list_response),
                py_str = (\<lambda>v. [])\<rparr>"

text \<open>An environment whose collaborator answers with text that is not JSON.\<close>

definition garbled_env :: extraction_env where
  "garbled_env = \<lparr>openai_api_key = ascii ''test-key'',
                   chat_completions_create = (\<lambda>prompt. Inr (Some (ascii ''This is not valid JSON''))),
                   json_loads = (\<lambda>s. Inl (JSONDecodeError
                                   (ascii ''Expecting value: line 1 column 1 (char 0)''))),
                   py_str = (\<lambda>v. [])\<rparr>"

section \<open>Relational store\<close>

text \<open>
  The three tables, as the queries of the routers read and write them. Identifiers are
  generated by the store; timestamps are the store's \<open>NOW()\<close>.
\<close>

type_synonym uuid = nat
type_synonym timestamp = nat

record disclosure_row =
  d_id :: uuid
  d_docket_number :: pystr
  d_title :: pystr
  d_description :: pystr
  d_key_differences :: pystr
  d_status :: pystr
  d_review_notes :: "pystr option"
  d_original_filename :: "pystr option"
  d_pdf_object_key :: "pystr option"
  d_created_at :: timestamp
  d_updated_at :: timestamp

record inventor_row =
  i_id :: uuid
  i_disclosure_id :: uuid
  i_name :: pystr
  i_email :: "pystr option"
  i_created_at :: timestamp

record history_row =
  h_id :: uuid
  h_disclosure_id :: uuid
  h_status :: pystr
  h_changed_at :: timestamp

record database =
  disclosures :: "disclosure_row list"
  inventors :: "inventor_row list"
  status_history :: "history_row list"
  docket_seq :: nat
  uuid_supply :: nat

text \<open>
  Modelled from the spec: the column default of \<open>disclosures.status\<close>. The \<open>INSERT\<close> of the
  upload gives no status and reads it back with \<open>RETURNING\<close>; the schema is not among the
  sources, and the spec gives the "initial value \<open>pending\<close>".
\<close>

definition default_status :: pystr where
  "default_status = ascii ''pending''"

text \<open>
  A statement inside a transaction: it raises when an earlier statement of the
  transaction has failed, or when the store fails it now.
\<close>

definition statement_fails :: "bool \<Rightarrow> exc option \<Rightarrow> exc option" where
  "statement_fails aborted fault =
     (if aborted then Some InFailedSQLTransactionError else fault)"

text \<open>A query argument for a text column: a string, or \<open>None\<close> for null.\<close>

fun text_param :: "json \<Rightarrow> exc + pystr option" where
  "text_param (JStr s) = Inr (Some s)"
| "text_param JNull = Inr None"
| "text_param _ = Inl DataError"

text \<open>The same for a column that forbids null.\<close>

fun required_text :: "pystr option \<Rightarrow> exc + pystr" where
  "required_text None = Inl NotNullViolationError"
| "required_text (Some s) = Inr s"

section \<open>Object store (services/storage.py)\<close>

datatype log_level = INFO | WARNING | ERROR

text \<open>
  The state outside the relational store: the bucket, its objects, and the records
  handed to the loggers. With the database it makes up the state a request runs in.
\<close>

record world =
  db :: database
  bucket_exists :: bool
  objects :: "pystr \<rightharpoonup> bytes"
  log :: "(log_level \<times> pystr) list"

definition logger :: "log_level \<Rightarrow> pystr \<Rightarrow> world \<Rightarrow> world" where
  "logger level msg w = w\<lparr>log := log w @ [(level, msg)]\<rparr>"

text \<open>
  What the surroundings of one request decide: the failures of the object store's calls
  and of the statements of the upload transaction (\<open>None\<close>: the call succeeds), the
  clock, the text of an identifier and of an exception, the PDF library, and the
  collaborators of the extraction.
\<close>

record request_env =
  extraction :: extraction_env
  fitz_open :: "bytes \<Rightarrow> pystr + (exc + pystr) list"
  now :: timestamp
  uuid_str :: "uuid \<Rightarrow> pystr"
  exn_str :: "exc \<Rightarrow> pystr"
  head_bucket_fault :: "exc option"
  create_bucket_fault :: "exc option"
  put_object_fault :: "exc option"
  insert_disclosure_fault :: "exc option"
  set_object_key_fault :: "exc option"
  insert_inventor_fault :: "nat \<Rightarrow> exc option"
  insert_history_fault :: "exc option"

text \<open>\<open>settings.minio_bucket_name\<close>, at its default.\<close>

definition minio_bucket_name :: pystr where
  "minio_bucket_name = ascii ''disclosures''"

text \<open>
  \<open>str(e)\<close>: the message of a \<open>ValueError\<close> or a \<open>JSONDecodeError\<close> is the text it
  carries; for the others the surroundings give it.
\<close>

definition str_of_exn :: "request_env \<Rightarrow> exc \<Rightarrow> pystr" where
  "str_of_exn env e =
     (case e of ValueError msg \<Rightarrow> msg | JSONDecodeError msg \<Rightarrow> msg | _ \<Rightarrow> exn_str env e)"

text \<open>
  \<open>head_bucket\<close> raises \<open>ClientError\<close> for a bucket that does not exist, and whatever the
  surroundings make it raise.
\<close>

definition head_bucket :: "request_env \<Rightarrow> world \<Rightarrow> exc option" where
  "head_bucket env w =
     (case head_bucket_fault env of
        Some e \<Rightarrow> Some e
      | None \<Rightarrow> if bucket_exists w then None else Some (ClientError (ascii ''404'')))"

text \<open>
  \<open>ensure_bucket_exists\<close>: only a \<open>ClientError\<close> of \<open>head_bucket\<close> leads to
  \<open>create_bucket\<close>, and only a \<open>ClientError\<close> of \<open>create_bucket\<close> is logged before it is
  raised again.
\<close>

definition ensure_bucket_exists :: "request_env \<Rightarrow> world \<Rightarrow> world \<times> exc option" where
  "ensure_bucket_exists env w =
     (case head_bucket env w of
        None \<Rightarrow> (w, None)
      | Some (ClientError m) \<Rightarrow>
          (case create_bucket_fault env of
             None \<Rightarrow>
               (logger INFO (ascii ''Created bucket: '' @ minio_bucket_name)
                  (w\<lparr>bucket_exists := True\<rparr>), None)
           | Some (ClientError m') \<Rightarrow>
               (logger ERROR (ascii ''Failed to create bucket: '' @ str_of_exn env (ClientError m')) w,
                Some (ClientError m'))
           | Some e \<Rightarrow> (w, Some e))
      | Some e \<Rightarrow> (w, Some e))"

text \<open>\<open>upload_pdf\<close>: returns the object key \<open>disclosures/{disclosure_id}/{filename}\<close>.\<close>

definition upload_pdf ::
  "request_env \<Rightarrow> pystr \<Rightarrow> pystr \<Rightarrow> bytes \<Rightarrow> world \<Rightarrow> world \<times> (exc + pystr)" where
  "upload_pdf env disclosure_id fname content w =
     (case ensure_bucket_exists env w of
        (w1, Some e) \<Rightarrow> (w1, Inl e)
      | (w1, None) \<Rightarrow>
          (let object_key = ascii ''disclosures/'' @ disclosure_id @ ascii ''/'' @ fname in
           case put_object_fault env of
             None \<Rightarrow>
               (logger INFO (ascii ''Uploaded PDF: '' @ object_key)
                  (w1\<lparr>objects := (objects w1)(object_key \<mapsto> content)\<rparr>),
                Inr object_key)
           | Some (ClientError m) \<Rightarrow>
               (logger ERROR (ascii ''Failed to upload PDF: '' @ str_of_exn env (ClientError m)) w1,
                Inl (ClientError m))
           | Some e \<Rightarrow> (w1, Inl e)))"

section \<open>Text extraction (services/pdf_processor.py)\<close>

text \<open>
  What the PDF library does with the bytes: it refuses them, with a message, or it
  opens the document, and then each page gives its text or raises.
\<close>

type_synonym pdf_library = "bytes \<Rightarrow> pystr + (exc + pystr) list"

text \<open>
  The loop over the pages. It is outside the \<open>try\<close> of the function, so the exception
  of a page goes on as it is. A page whose text is only white space adds nothing.
\<close>

fun page_texts :: "(exc + pystr) list \<Rightarrow> exc + pystr list" where
  "page_texts [] = Inr []"
| "page_texts (page # rest) =
     (case page of
        Inl e \<Rightarrow> Inl e
      | Inr t \<Rightarrow>
          (case page_texts rest of
             Inl e \<Rightarrow> Inl e
           | Inr text_parts \<Rightarrow> Inr (if strip t \<noteq> [] then t # text_parts else text_parts)))"

text \<open>
  \<open>extract_text_from_pdf\<close>: a refusal to open becomes \<open>ValueError\<close> "Invalid PDF file:
  ..."; the texts of the pages are joined by an empty line.
\<close>

definition extract_text_from_pdf :: "pdf_library \<Rightarrow> bytes \<Rightarrow> exc + pystr" where
  "extract_text_from_pdf open_pdf pdf_bytes =
     (case open_pdf pdf_bytes of
        Inl msg \<Rightarrow> Inl (ValueError (ascii ''Invalid PDF file: '' @ msg))
      | Inr pages \<Rightarrow>
          (case page_texts pages of
             Inl e \<Rightarrow> Inl e
           | Inr text_parts \<Rightarrow> Inr (join (ascii [CHR 0x0A, CHR 0x0A]) text_parts)))"

section \<open>Upload (routers/disclosures.py, \<open>upload_disclosure\<close>)\<close>

text \<open>
  What a handler gives back when it does not succeed: an \<open>HTTPException\<close> with status
  code and detail, or an exception nobody handles, which the framework turns into a
  server error.
\<close>

datatype http_error = HTTPException nat pystr | Unhandled exc

text \<open>The response models \<open>Disclosure\<close> and \<open>UploadResponse\<close> of models.py.\<close>

record Disclosure =
  o_id :: uuid
  o_docket_number :: pystr
  o_title :: pystr
  o_description :: pystr
  o_key_differences :: pystr
  o_status :: pystr
  o_review_notes :: "pystr option"
  o_original_filename :: "pystr option"
  o_created_at :: timestamp
  o_updated_at :: timestamp

definition to_Disclosure :: "disclosure_row \<Rightarrow> Disclosure" where
  "to_Disclosure r =
     \<lparr>o_id = d_id r, o_docket_number = d_docket_number r, o_title = d_title r,
      o_description = d_description r, o_key_differences = d_key_differences r,
      o_status = d_status r, o_review_notes = d_review_notes r,
      o_original_filename = d_original_filename r,
      o_created_at = d_created_at r, o_updated_at = d_updated_at r\<rparr>"

record UploadResponse =
  r_disclosure :: Disclosure
  r_inventors :: "inventor_row list"
  r_status_history :: "history_row list"
  r_message :: pystr

text \<open>The uploaded file: its name, if it has one, and what reading it gives.\<close>

record upload_file =
  filename :: "pystr option"
  file_read :: "exc + bytes"

text \<open>
  \<open>str.lower()\<close> on the ASCII letters. Beyond ASCII it follows the Unicode tables, where no
  character lowercases to one of the four characters of the suffix \<open>.pdf\<close>, so the suffix
  test of the upload is decided by the ASCII letters.
\<close>

definition lower :: "pystr \<Rightarrow> pystr" where
  "lower s = map (\<lambda>c. if 65 \<le> c \<and> c \<le> 90 then c + 32 else c) s"

text \<open>\<open>for inv in ...\<close>: what iterating over a value yields.\<close>

fun py_iter :: "json \<Rightarrow> exc + json list" where
  "py_iter (JArr xs) = Inr xs"
| "py_iter (JStr s) = Inr (map (\<lambda>c. JStr [c]) s)"
| "py_iter (JObj kvs) = Inr (map (\<lambda>kv. JStr (fst kv)) kvs)"
| "py_iter _ = Inl TypeError"

text \<open>
  The first statement of the transaction: \<open>INSERT INTO disclosures ... RETURNING ...\<close> with
  the docket number, the three extracted fields and the file name. The store gives the
  identifier, the status and the two timestamps.
\<close>

definition insert_disclosure ::
  "request_env \<Rightarrow> pystr \<Rightarrow> json \<Rightarrow> pystr \<Rightarrow> database \<Rightarrow> exc + (database \<times> disclosure_row)" where
  "insert_disclosure env docket_number extracted fname d =
     (case py_getitem extracted (ascii ''title'') of Inl e \<Rightarrow> Inl e | Inr t \<Rightarrow>
      (case py_getitem extracted (ascii ''description'') of Inl e \<Rightarrow> Inl e | Inr ds \<Rightarrow>
      (case py_getitem extracted (ascii ''key_differences'') of Inl e \<Rightarrow> Inl e | Inr k \<Rightarrow>
      (case text_param t of Inl e \<Rightarrow> Inl e | Inr t1 \<Rightarrow>
      (case text_param ds of Inl e \<Rightarrow> Inl e | Inr ds1 \<Rightarrow>
      (case text_param k of Inl e \<Rightarrow> Inl e | Inr k1 \<Rightarrow>
      (case insert_disclosure_fault env of Some e \<Rightarrow> Inl e | None \<Rightarrow>
      (case required_text t1 of Inl e \<Rightarrow> Inl e | Inr t2 \<Rightarrow>
      (case required_text ds1 of Inl e \<Rightarrow> Inl e | Inr ds2 \<Rightarrow>
      (case required_text k1 of Inl e \<Rightarrow> Inl e | Inr k2 \<Rightarrow>
        (let row = \<lparr>d_id = uuid_supply d, d_docket_number = docket_number, d_title = t2,
                    d_description = ds2, d_key_differences = k2, d_status = default_status,
                    d_review_notes = None, d_original_filename = Some fname,
                    d_pdf_object_key = None, d_created_at = now env, d_updated_at = now env\<rparr>
         in Inr (d\<lparr>disclosures := disclosures d @ [row], uuid_supply := Suc (uuid_supply d)\<rparr>,
                 row))))))))))))"

text \<open>\<open>UPDATE disclosures SET pdf_object_key = $1 WHERE id = $2\<close>.\<close>

definition set_object_key :: "pystr \<Rightarrow> uuid \<Rightarrow> database \<Rightarrow> database" where
  "set_object_key object_key did d =
     d\<lparr>disclosures :=
         map (\<lambda>r. if d_id r = did then r\<lparr>d_pdf_object_key := Some object_key\<rparr> else r)
           (disclosures d)\<rparr>"

text \<open>
  "Upload PDF to MinIO storage": the \<open>try\<close> block that follows the first statement, inside
  the transaction. Any exception of \<open>storage.upload_pdf\<close> or of the \<open>UPDATE\<close> is caught and
  logged as a warning. The result is the new state, the handler's \<open>disclosure\<close>
  dictionary, and whether a failed \<open>UPDATE\<close> has left the transaction aborted.
\<close>

definition attach_pdf ::
  "request_env \<Rightarrow> disclosure_row \<Rightarrow> pystr \<Rightarrow> bytes \<Rightarrow> world \<Rightarrow> world \<times> disclosure_row \<times> bool" where
  "attach_pdf env disclosure fname content w =
     (case upload_pdf env (uuid_str env (d_id disclosure)) fname content w of
        (w1, Inl e) \<Rightarrow>
          (logger WARNING (ascii ''Failed to upload PDF to storage: '' @ str_of_exn env e) w1,
           disclosure, False)
      | (w1, Inr pdf_object_key) \<Rightarrow>
          (case set_object_key_fault env of
             Some e \<Rightarrow>
               (logger WARNING (ascii ''Failed to upload PDF to storage: '' @ str_of_exn env e) w1,
                disclosure, True)
           | None \<Rightarrow>
               (w1\<lparr>db := set_object_key pdf_object_key (d_id disclosure) (db w1)\<rparr>,
                disclosure\<lparr>d_pdf_object_key := Some pdf_object_key\<rparr>, False)))"

text \<open>
  One turn of the loop over the extracted inventors:
  \<open>INSERT INTO inventors ... RETURNING ...\<close> with \<open>inv.get("name", "Unknown")\<close> and
  \<open>inv.get("email")\<close>. The counter is the position of the inventor in the list.
\<close>

definition insert_inventor ::
  "request_env \<Rightarrow> uuid \<Rightarrow> bool \<Rightarrow> nat \<Rightarrow> json \<Rightarrow> database \<Rightarrow> exc + (database \<times> inventor_row)" where
  "insert_inventor env did aborted n inventor d =
     (case py_get inventor (ascii ''name'') (JStr (ascii ''Unknown'')) of Inl e \<Rightarrow> Inl e | Inr nm \<Rightarrow>
      (case py_get inventor (ascii ''email'') JNull of Inl e \<Rightarrow> Inl e | Inr em \<Rightarrow>
      (case text_param nm of Inl e \<Rightarrow> Inl e | Inr nm1 \<Rightarrow>
      (case text_param em of Inl e \<Rightarrow> Inl e | Inr em1 \<Rightarrow>
      (case statement_fails aborted (insert_inventor_fault env n) of Some e \<Rightarrow> Inl e | None \<Rightarrow>
      (case required_text nm1 of Inl e \<Rightarrow> Inl e | Inr nm2 \<Rightarrow>
        (let row = \<lparr>i_id = uuid_supply d, i_disclosure_id = did, i_name = nm2,
                    i_email = em1, i_created_at = now env\<rparr>
         in Inr (d\<lparr>inventors := inventors d @ [row], uuid_supply := Suc (uuid_supply d)\<rparr>, row))))))))"

text \<open>The loop: it stops at the first inventor whose insertion raises.\<close>

fun insert_inventors ::
  "request_env \<Rightarrow> uuid \<Rightarrow> bool \<Rightarrow> nat \<Rightarrow> json list \<Rightarrow> database
     \<Rightarrow> exc + (database \<times> inventor_row list)" where
  "insert_inventors env did aborted n [] d = Inr (d, [])"
| "insert_inventors env did aborted n (inventor # rest) d =
     (case insert_inventor env did aborted n inventor d of
        Inl e \<Rightarrow> Inl e
      | Inr (d1, row) \<Rightarrow>
          (case insert_inventors env did aborted (Suc n) rest d1 of
             Inl e \<Rightarrow> Inl e
           | Inr (d2, rows) \<Rightarrow> Inr (d2, row # rows)))"

text \<open>"Record initial status in history": \<open>INSERT INTO status_history ... RETURNING ...\<close>.\<close>

definition append_history :: "timestamp \<Rightarrow> uuid \<Rightarrow> pystr \<Rightarrow> database \<Rightarrow> database \<times> history_row" where
  "append_history t did st d =
     (let row = \<lparr>h_id = uuid_supply d, h_disclosure_id = did, h_status = st, h_changed_at = t\<rparr>
      in (d\<lparr>status_history := status_history d @ [row], uuid_supply := Suc (uuid_supply d)\<rparr>,
          row))"

definition insert_history ::
  "request_env \<Rightarrow> uuid \<Rightarrow> pystr \<Rightarrow> bool \<Rightarrow> database \<Rightarrow> exc + (database \<times> history_row)" where
  "insert_history env did st aborted d =
     (case statement_fails aborted (insert_history_fault env) of
        Some e \<Rightarrow> Inl e
      | None \<Rightarrow> Inr (append_history (now env) did st d))"

text \<open>
  The body of \<open>async with conn.transaction()\<close> in the order of the source: the disclosure
  row, the attachment of the PDF, the inventor rows, the history row.
\<close>

definition create_disclosure ::
  "request_env \<Rightarrow> pystr \<Rightarrow> json \<Rightarrow> pystr \<Rightarrow> bytes \<Rightarrow> world \<Rightarrow> world \<times> (exc + UploadResponse)" where
  "create_disclosure env docket_number extracted fname content w =
     (case insert_disclosure env docket_number extracted fname (db w) of
        Inl e \<Rightarrow> (w, Inl e)
      | Inr (d1, disclosure) \<Rightarrow>
          (case attach_pdf env disclosure fname content (w\<lparr>db := d1\<rparr>) of
             (w2, disclosure2, aborted) \<Rightarrow>
               (case py_get extracted (ascii ''inventors'') (JArr []) of Inl e \<Rightarrow> (w2, Inl e) | Inr invs \<Rightarrow>
               (case py_iter invs of Inl e \<Rightarrow> (w2, Inl e) | Inr inv_list \<Rightarrow>
               (case insert_inventors env (d_id disclosure2) aborted 0 inv_list (db w2) of
                  Inl e \<Rightarrow> (w2, Inl e)
                | Inr (d3, inventor_rows) \<Rightarrow>
               (case insert_history env (d_id disclosure2) (d_status disclosure2) aborted d3 of
                  Inl e \<Rightarrow> (w2, Inl e)
                | Inr (d4, history) \<Rightarrow>
                    (w2\<lparr>db := d4\<rparr>,
                     Inr \<lparr>r_disclosure = to_Disclosure disclosure2,
                          r_inventors = inventor_rows,
                          r_status_history = [history],
                          r_message = ascii ''Disclosure created successfully''\<rparr>)))))))"

text \<open>
  \<open>async with conn.transaction()\<close>: when the body raises, the relational store is put back
  to where the transaction began and the exception goes on; what the body did outside
  the relational store stays done. A sequence is never rolled back.
\<close>

definition rollback :: "database \<Rightarrow> database \<Rightarrow> database" where
  "rollback before after = before\<lparr>docket_seq := docket_seq after\<rparr>"

definition transaction ::
  "(world \<Rightarrow> world \<times> (exc + 'a)) \<Rightarrow> world \<Rightarrow> world \<times> (exc + 'a)" where
  "transaction body w =
     (case body w of
        (w1, Inl e) \<Rightarrow> (w1\<lparr>db := rollback (db w) (db w1)\<rparr>, Inl e)
      | (w1, Inr r) \<Rightarrow> (w1, Inr r))"

text \<open>The handler of \<open>POST /api/disclosures/upload\<close>.\<close>

definition upload_disclosure ::
  "request_env \<Rightarrow> upload_file \<Rightarrow> world \<Rightarrow> world \<times> (http_error + UploadResponse)" where
  "upload_disclosure env file w =
     (case filename file of
        None \<Rightarrow> (w, Inl (HTTPException 400 (ascii ''Only PDF files are accepted'')))
      | Some fname \<Rightarrow>
          if fname = [] \<or> \<not> endswith (lower fname) (ascii ''.pdf'') then
            (w, Inl (HTTPException 400 (ascii ''Only PDF files are accepted'')))
          else
            (case file_read file of
               Inl e \<Rightarrow> (w, Inl (HTTPException 400 (ascii ''Failed to read uploaded file'')))
             | Inr content \<Rightarrow>
                 (case extract_text_from_pdf (fitz_open env) content of
                    Inl e \<Rightarrow>
                      (case e of
                         ValueError msg \<Rightarrow> (w, Inl (HTTPException 400 msg))
                       | JSONDecodeError msg \<Rightarrow> (w, Inl (HTTPException 400 msg))
                       | _ \<Rightarrow> (w, Inl (Unhandled e)))
                  | Inr text \<Rightarrow>
                      if text = [] \<or> length (strip text) < 50 then
                        (w, Inl (HTTPException 400 (ascii
                           ''Could not extract sufficient text from PDF. The file may be image-based or corrupted.'')))
                      else
                        (case extract_disclosure_info (extraction env) text of
                           Inl e \<Rightarrow>
                             (w, Inl (HTTPException 500
                                (ascii ''Failed to extract information from document: ''
                                 @ str_of_exn env e)))
                         | Inr extracted \<Rightarrow>
                             (case get_next_docket_number (docket_seq (db w)) of
                                (seq1, docket_number) \<Rightarrow>
                                  (case transaction
                                          (create_disclosure env docket_number extracted fname content)
                                          (w\<lparr>db := (db w)\<lparr>docket_seq := seq1\<rparr>\<rparr>) of
                                     (w1, Inl e) \<Rightarrow> (w1, Inl (Unhandled e))
                                   | (w1, Inr response) \<Rightarrow> (w1, Inr response)))))))"

section \<open>Update (routers/disclosures.py, \<open>update_disclosure\<close>)\<close>

text \<open>The request model \<open>DisclosureUpdate\<close> of models.py: five optional strings.\<close>

record DisclosureUpdate =
  u_title :: "pystr option"
  u_description :: "pystr option"
  u_key_differences :: "pystr option"
  u_status :: "pystr option"
  u_review_notes :: "pystr option"

text \<open>
  How the framework builds the model from the JSON body, for a field declared
  \<open>str | None = None\<close>: a missing key gives the default \<open>None\<close>, a null gives \<open>None\<close>, a
  string gives itself, and anything else fails validation. Keys that the model does not
  declare are ignored.
\<close>

fun optional_str :: "json option \<Rightarrow> unit + pystr option" where
  "optional_str None = Inr None"
| "optional_str (Some JNull) = Inr None"
| "optional_str (Some (JStr s)) = Inr (Some s)"
| "optional_str (Some _) = Inl ()"

definition DisclosureUpdate_validate :: "json \<Rightarrow> unit + DisclosureUpdate" where
  "DisclosureUpdate_validate body =
     (case body of
        JObj kvs \<Rightarrow>
          (case optional_str (map_of kvs (ascii ''title'')) of Inl u \<Rightarrow> Inl () | Inr t \<Rightarrow>
          (case optional_str (map_of kvs (ascii ''description'')) of Inl u \<Rightarrow> Inl () | Inr ds \<Rightarrow>
          (case optional_str (map_of kvs (ascii ''key_differences'')) of Inl u \<Rightarrow> Inl () | Inr k \<Rightarrow>
          (case optional_str (map_of kvs (ascii ''status'')) of Inl u \<Rightarrow> Inl () | Inr st \<Rightarrow>
          (case optional_str (map_of kvs (ascii ''review_notes'')) of Inl u \<Rightarrow> Inl () | Inr rn \<Rightarrow>
             Inr \<lparr>u_title = t, u_description = ds, u_key_differences = k,
                  u_status = st, u_review_notes = rn\<rparr>)))))
      | _ \<Rightarrow> Inl ())"

text \<open>
  The \<open>SET\<close> clause is built as two parallel lists, \<open>updates\<close> (the assignments) and
  \<open>values\<close> (their arguments); here one list of columns with their new values.
\<close>

datatype column = Title | Description | KeyDifferences | Status | ReviewNotes

fun assign :: "column \<times> pystr \<Rightarrow> disclosure_row \<Rightarrow> disclosure_row" where
  "assign (Title, v) r = r\<lparr>d_title := v\<rparr>"
| "assign (Description, v) r = r\<lparr>d_description := v\<rparr>"
| "assign (KeyDifferences, v) r = r\<lparr>d_key_differences := v\<rparr>"
| "assign (Status, v) r = r\<lparr>d_status := v\<rparr>"
| "assign (ReviewNotes, v) r = r\<lparr>d_review_notes := Some v\<rparr>"

definition valid_statuses :: "pystr list" where
  "valid_statuses = [ascii ''pending'', ascii ''reviewed'', ascii ''approved'', ascii ''rejected'']"

text \<open>\<open>if update.f is not None: updates.append(...)\<close>.\<close>

definition set_if_present :: "column \<Rightarrow> pystr option \<Rightarrow> (column \<times> pystr) list" where
  "set_if_present c v = (case v of None \<Rightarrow> [] | Some x \<Rightarrow> [(c, x)])"

text \<open>
  "Build update query dynamically": the five tests in the order of the source, with the
  check of the status value in the fourth. The result is the list of assignments and
  \<open>status_changed\<close>.
\<close>

definition build_updates ::
  "DisclosureUpdate \<Rightarrow> pystr \<Rightarrow> http_error + ((column \<times> pystr) list \<times> bool)" where
  "build_updates update current_status =
     (let updates3 = set_if_present Title (u_title update)
                     @ set_if_present Description (u_description update)
                     @ set_if_present KeyDifferences (u_key_differences update)
      in case u_status update of
           None \<Rightarrow> Inr (updates3 @ set_if_present ReviewNotes (u_review_notes update), False)
         | Some st \<Rightarrow>
             if st \<notin> set valid_statuses then
               Inl (HTTPException 400 (ascii ''Invalid status value''))
             else
               Inr (updates3 @ [(Status, st)]
                      @ set_if_present ReviewNotes (u_review_notes update),
                    st \<noteq> current_status))"

text \<open>\<open>UPDATE disclosures SET ..., updated_at = NOW() WHERE id = $n\<close>.\<close>

definition update_row :: "(column \<times> pystr) list \<Rightarrow> timestamp \<Rightarrow> disclosure_row \<Rightarrow> disclosure_row" where
  "update_row updates t r = (fold assign updates r)\<lparr>d_updated_at := t\<rparr>"

definition update_rows ::
  "(column \<times> pystr) list \<Rightarrow> timestamp \<Rightarrow> uuid \<Rightarrow> database \<Rightarrow> database" where
  "update_rows updates t did d =
     d\<lparr>disclosures := map (\<lambda>r. if d_id r = did then update_row updates t r else r) (disclosures d)\<rparr>"

text \<open>
  The handler of \<open>PATCH /api/disclosures/{disclosure_id}\<close>. It opens no transaction; its
  statements are taken to succeed.
\<close>

definition update_disclosure ::
  "request_env \<Rightarrow> uuid \<Rightarrow> DisclosureUpdate \<Rightarrow> world \<Rightarrow> world \<times> (http_error + Disclosure)" where
  "update_disclosure env disclosure_id update w =
     (case find (\<lambda>r. d_id r = disclosure_id) (disclosures (db w)) of
        None \<Rightarrow> (w, Inl (HTTPException 404 (ascii ''Disclosure not found'')))
      | Some existing \<Rightarrow>
          (case build_updates update (d_status existing) of
             Inl err \<Rightarrow> (w, Inl err)
           | Inr (updates, status_changed) \<Rightarrow>
               if updates = [] then
                 (w, Inl (HTTPException 400 (ascii ''No fields to update'')))
               else
                 (let d1 = update_rows updates (now env) disclosure_id (db w) in
                  case find (\<lambda>r. d_id r = disclosure_id) (disclosures d1) of
                    None \<Rightarrow> (w\<lparr>db := d1\<rparr>, Inl (Unhandled TypeError))
                  | Some row \<Rightarrow>
                      if status_changed then
                        (case u_status update of
                           None \<Rightarrow> (w\<lparr>db := d1\<rparr>, Inl (Unhandled NotNullViolationError))
                         | Some st \<Rightarrow>
                             (w\<lparr>db := fst (append_history (now env) disclosure_id st d1)\<rparr>,
                              Inr (to_Disclosure row)))
                      else (w\<lparr>db := d1\<rparr>, Inr (to_Disclosure row)))))"

text \<open>The route: the body is validated into the model before the handler runs.\<close>

definition patch_disclosure ::
  "request_env \<Rightarrow> uuid \<Rightarrow> json \<Rightarrow> world \<Rightarrow> world \<times> (http_error + Disclosure)" where
  "patch_disclosure env disclosure_id body w =
     (case DisclosureUpdate_validate body of
        Inl u \<Rightarrow> (w, Inl (HTTPException 422 (ascii ''Unprocessable Entity'')))
      | Inr update \<Rightarrow> update_disclosure env disclosure_id update w)"

section \<open>Export (routers/disclosures.py, \<open>export_disclosures_csv\<close>)\<close>

text \<open>
  What the export takes from outside the source: the store's \<open>ILIKE\<close> (value, pattern),
  \<open>datetime.isoformat\<close>, and the rendering of one row by \<open>csv.writer\<close>.
\<close>

record export_env =
  ilike :: "pystr \<Rightarrow> pystr \<Rightarrow> bool"
  isoformat :: "timestamp \<Rightarrow> pystr"
  writerow :: "pystr list \<Rightarrow> pystr"

text \<open>
  The query of the list and export endpoints: the optional filters (a parameter that is
  \<open>None\<close> or empty adds none), newest first. Rows of equal \<open>created_at\<close> stay in
  the order of the table.
\<close>

definition select_disclosures ::
  "export_env \<Rightarrow> pystr option \<Rightarrow> pystr option \<Rightarrow> database \<Rightarrow> disclosure_row list" where
  "select_disclosures env search status_filter d =
     (let rows1 = (case search of
                     None \<Rightarrow> disclosures d
                   | Some s \<Rightarrow>
                       if s = [] then disclosures d
                       else filter (\<lambda>r. ilike env (d_title r) (ascii ''%'' @ s @ ascii ''%'')
                                       \<or> ilike env (d_description r) (ascii ''%'' @ s @ ascii ''%'')
                                       \<or> ilike env (d_docket_number r) (ascii ''%'' @ s @ ascii ''%''))
                              (disclosures d));
          rows2 = (case status_filter of
                     None \<Rightarrow> rows1
                   | Some st \<Rightarrow> if st = [] then rows1 else filter (\<lambda>r. d_status r = st) rows1)
      in sort_key (\<lambda>r. - int (d_created_at r)) rows2)"

text \<open>
  \<open>SELECT disclosure_id, name, email FROM inventors WHERE disclosure_id = ANY($1)
  ORDER BY created_at\<close>, run only when there is a disclosure.
\<close>

definition select_inventors :: "uuid list \<Rightarrow> database \<Rightarrow> inventor_row list" where
  "select_inventors disclosure_ids d =
     (if disclosure_ids = [] then []
      else sort_key i_created_at
             (filter (\<lambda>i. i_disclosure_id i \<in> set disclosure_ids) (inventors d)))"

text \<open>
  The loop that fills \<open>inventors_by_disclosure\<close>: every name is appended, an email only
  when it is neither null nor empty.
\<close>

fun group_inventors ::
  "inventor_row list \<Rightarrow> (uuid \<rightharpoonup> pystr list \<times> pystr list) \<Rightarrow> (uuid \<rightharpoonup> pystr list \<times> pystr list)" where
  "group_inventors [] m = m"
| "group_inventors (i # rest) m =
     (let did = i_disclosure_id i;
          entry = (case m did of None \<Rightarrow> ([], []) | Some e \<Rightarrow> e);
          names = fst entry @ [i_name i];
          emails = (case i_email i of
                      None \<Rightarrow> snd entry
                    | Some e \<Rightarrow> if e = [] then snd entry else snd entry @ [e])
      in group_inventors rest (m(did \<mapsto> (names, emails))))"

definition csv_header :: "pystr list" where
  "csv_header =
     [ascii ''Docket Number'', ascii ''Title'', ascii ''Description'', ascii ''Key Differences'',
      ascii ''Status'', ascii ''Review Notes'', ascii ''Original Filename'',
      ascii ''Inventor Names'', ascii ''Inventor Emails'', ascii ''Created At'',
      ascii ''Updated At'']"

text \<open>\<open>x or ""\<close> on an optional string.\<close>

definition or_empty :: "pystr option \<Rightarrow> pystr" where
  "or_empty v = (case v of None \<Rightarrow> [] | Some s \<Rightarrow> s)"

text \<open>
  One data row. The two timestamps are never null in the store, so the \<open>else ""\<close> of the
  source is not taken.
\<close>

definition csv_data_row ::
  "export_env \<Rightarrow> (uuid \<rightharpoonup> pystr list \<times> pystr list) \<Rightarrow> disclosure_row \<Rightarrow> pystr list" where
  "csv_data_row env inventors_by_disclosure r =
     (let inv_data = (case inventors_by_disclosure (d_id r) of None \<Rightarrow> ([], []) | Some e \<Rightarrow> e)
      in [d_docket_number r, d_title r, d_description r, d_key_differences r, d_status r,
          or_empty (d_review_notes r), or_empty (d_original_filename r),
          join (ascii ''; '') (fst inv_data), join (ascii ''; '') (snd inv_data),
          isoformat env (d_created_at r), isoformat env (d_updated_at r)])"

text \<open>The rows handed to the writer, header first.\<close>

definition export_rows ::
  "export_env \<Rightarrow> pystr option \<Rightarrow> pystr option \<Rightarrow> database \<Rightarrow> pystr list list" where
  "export_rows env search status_filter d =
     (let rows = select_disclosures env search status_filter d;
          inventor_rows = select_inventors (map d_id rows) d;
          inventors_by_disclosure = group_inventors inventor_rows Map.empty
      in csv_header # map (csv_data_row env inventors_by_disclosure) rows)"

text \<open>The body of the response: what the writer made of the rows.\<close>

definition export_disclosures_csv ::
  "export_env \<Rightarrow> pystr option \<Rightarrow> pystr option \<Rightarrow> database \<Rightarrow> pystr" where
  "export_disclosures_csv env search status_filter d =
     concat (map (writerow env) (export_rows env search status_filter d))"

section \<open>Example requests\<close>

text \<open>
  A collaborator that answers with two inventors, the second without an email; a PDF
  library that finds one page of sixty letters; a store where every call succeeds.
\<close>

definition two_inventor_response :: json where
  "two_inventor_response = JObj
     [(ascii ''title'', JStr (ascii ''T'')),
      (ascii ''description'', JStr (ascii ''D'')),
      (ascii ''key_differences'', JStr (ascii ''K'')),
      (ascii ''inventors'',
         JArr [JObj [(ascii ''name'', JStr (ascii ''Ada'')), (ascii ''email'', JStr (ascii ''ada@x.org''))],
               JObj [(ascii ''name'', JStr (ascii ''Bob''))]])]"

definition example_extraction :: extraction_env where
  "example_extraction =
     \<lparr>openai_api_key = ascii ''test-key'',
      chat_completions_create = (\<lambda>prompt. Inr (Some (ascii ''{...}''))),
      json_loads = (\<lambda>s. Inr two_inventor_response),
      py_str = (\<lambda>v. [])\<rparr>"

definition example_env :: request_env where
  "example_env =
     \<lparr>extraction = example_extraction,
      fitz_open = (\<lambda>b. Inr [Inr (replicate 60 120)]),
      now = 1000,
      uuid_str = digits10,
      exn_str = (\<lambda>e. ascii ''failed''),
      head_bucket_fault = None,
      create_bucket_fault = None,
      put_object_fault = None,
      insert_disclosure_fault = None,
      set_object_key_fault = None,
      insert_inventor_fault = (\<lambda>n. None),
      insert_history_fault = None\<rparr>"

definition example_file :: upload_file where
  "example_file = \<lparr>filename = Some (ascii ''idea.PDF''), file_read = Inr [37, 80, 68, 70]\<rparr>"

definition empty_world :: world where
  "empty_world =
     \<lparr>db = \<lparr>disclosures = [], inventors = [], status_history = [],
             docket_seq = 41, uuid_supply = 7\<rparr>,
      bucket_exists = True,
      objects = Map.empty,
      log = []\<rparr>"

text \<open>
  A store that holds one disclosure, pending and with a review note, and its initial
  history entry; and the patch that sets nothing.
\<close>

definition stored_disclosure :: disclosure_row where
  "stored_disclosure =
     \<lparr>d_id = 7, d_docket_number = ascii ''IDF-0042'', d_title = ascii ''T'',
      d_description = ascii ''D'', d_key_differences = ascii ''K'',
      d_status = ascii ''pending'', d_review_notes = Some (ascii ''checked''),
      d_original_filename = Some (ascii ''idea.pdf''), d_pdf_object_key = None,
      d_created_at = 1000, d_updated_at = 1000\<rparr>"

definition one_disclosure_world :: world where
  "one_disclosure_world =
     \<lparr>db = \<lparr>disclosures = [stored_disclosure], inventors = [],
             status_history = [\<lparr>h_id = 8, h_disclosure_id = 7, h_status = ascii ''pending'',
                                h_changed_at = 1000\<rparr>],
             docket_seq = 42, uuid_supply = 9\<rparr>,
      bucket_exists = True,
      objects = Map.empty,
      log = []\<rparr>"

definition empty_update :: DisclosureUpdate where
  "empty_update =
     \<lparr>u_title = None, u_description = None, u_key_differences = None,
      u_status = None, u_review_notes = None\<rparr>"

text \<open>The names of the fields that \<open>DisclosureUpdate\<close> declares.\<close>

definition recognized_fields :: "pystr list" where
  "recognized_fields =
     [ascii ''title'', ascii ''description'', ascii ''key_differences'', ascii ''status'',
      ascii ''review_notes'']"

section \<open>Properties of the docket sequencer\<close>

lemma digits10_nonempty: "digits10 n \<noteq> []"
  by (induction n rule: digits10.induct) (subst digits10.simps, simp)

lemma digits10_isdigit: "list_all isdigit (digits10 n)"
proof (induction n rule: digits10.induct)
  case (1 n)
  show ?case
  proof (cases "n < 10")
    case True then show ?thesis by (subst digits10.simps) (simp add: isdigit_def)
  next
    case False
    have "n mod 10 < 10" by simp
    then have "isdigit (48 + n mod 10)" unfolding isdigit_def by linarith
    with False 1 show ?thesis by (subst digits10.simps) simp
  qed
qed

lemma decimal_value_snoc: "decimal_value (s @ [c]) = 10 * decimal_value s + (c - 48)"
  by (simp add: decimal_value_def)

lemma decimal_value_digits10: "decimal_value (digits10 n) = n"
proof (induction n rule: digits10.induct)
  case (1 n)
  show ?case
  proof (cases "n < 10")
    case True then show ?thesis by (subst digits10.simps) (simp add: decimal_value_def)
  next
    case False
    with 1 show ?thesis by (subst digits10.simps) (simp add: decimal_value_snoc)
  qed
qed

lemma decimal_value_zeros: "decimal_value (replicate k 48 @ s) = decimal_value s"
  by (induction k) (simp_all add: decimal_value_def)

lemma digits10_length_small: "n < 10000 \<Longrightarrow> length (digits10 n) \<le> 4"
proof -
  assume a: "n < 10000"
  have s: "\<And>m. m < 10 \<Longrightarrow> length (digits10 m) = 1" by (subst digits10.simps) simp
  have t: "\<And>m. m < 100 \<Longrightarrow> length (digits10 m) \<le> 2"
    by (subst digits10.simps) (auto simp: s)
  have u: "\<And>m. m < 1000 \<Longrightarrow> length (digits10 m) \<le> 3"
    subgoal for m using t[of "m div 10"] by (subst digits10.simps) auto
    done
  show ?thesis using u[of "n div 10"] a by (subst digits10.simps) auto
qed

lemma digits10_length_large: "10000 \<le> n \<Longrightarrow> 5 \<le> length (digits10 n)"
proof -
  assume a: "10000 \<le> n"
  have s: "\<And>m. 10 \<le> m \<Longrightarrow> 2 \<le> length (digits10 m)"
    subgoal for m using digits10_nonempty[of "m div 10"] by (subst digits10.simps) (cases "digits10 (m div 10)"; simp)
    done
  have t: "\<And>m. 100 \<le> m \<Longrightarrow> 3 \<le> length (digits10 m)"
    subgoal for m using s[of "m div 10"] by (subst digits10.simps) auto
    done
  have u: "\<And>m. 1000 \<le> m \<Longrightarrow> 4 \<le> length (digits10 m)"
    subgoal for m using t[of "m div 10"] by (subst digits10.simps) auto
    done
  show ?thesis using u[of "n div 10"] a by (subst digits10.simps) auto
qed

lemma digits10_no_leading_zero: "0 < n \<Longrightarrow> hd (digits10 n) \<noteq> 48"
proof (induction n rule: digits10.induct)
  case (1 n)
  show ?case
  proof (cases "n < 10")
    case True with 1(2) show ?thesis by (subst digits10.simps) simp
  next
    case False
    then have "0 < n div 10" by simp
    with 1 False have "hd (digits10 (n div 10)) \<noteq> 48" by simp
    with False digits10_nonempty[of "n div 10"] show ?thesis by (subst digits10.simps) simp
  qed
qed

lemma docket_number_parts:
  assumes "get_next_docket_number seq = (seq', docket)"
  shows "seq' = Suc seq"
    and "take 4 docket = ascii ''IDF-''"
    and "drop 4 docket = replicate (4 - length (digits10 seq')) 48 @ digits10 seq'"
    and "list_all isdigit (drop 4 docket)"
    and "4 \<le> length (drop 4 docket)"
    and "decimal_value (drop 4 docket) = seq'"
    and "seq' < 10000 \<longrightarrow> length (drop 4 docket) = 4"
    and "10000 \<le> seq' \<longrightarrow> drop 4 docket = digits10 seq'"
proof -
  from assms have s: "seq' = Suc seq"
    and d: "docket = ascii ''IDF-'' @ format_04d (int seq')"
    by (auto simp: get_next_docket_number_def nextval_def)
  have f: "format_04d (int seq') = replicate (4 - length (digits10 seq')) 48 @ digits10 seq'"
    by (simp add: format_04d_def Let_def)
  have l: "length (ascii ''IDF-'') = 4" by (simp add: ascii_def)
  show "seq' = Suc seq" by (rule s)
  show "take 4 docket = ascii ''IDF-''" using l by (simp add: d)
  show r: "drop 4 docket = replicate (4 - length (digits10 seq')) 48 @ digits10 seq'"
    using l by (simp add: d f)
  show "list_all isdigit (drop 4 docket)"
    using digits10_isdigit[of seq'] by (auto simp: r list_all_iff isdigit_def)
  show "4 \<le> length (drop 4 docket)" by (simp add: r)
  show "decimal_value (drop 4 docket) = seq'"
    by (simp only: r decimal_value_zeros decimal_value_digits10)
  show "seq' < 10000 \<longrightarrow> length (drop 4 docket) = 4"
    using digits10_length_small[of seq'] by (auto simp: r)
  show "10000 \<le> seq' \<longrightarrow> drop 4 docket = digits10 seq'"
    using digits10_length_large[of seq'] by (auto simp: r)
qed

text \<open>
  C8. For the counter value \<open>n\<close> that the sequencer issues, the docket number is
  \<open>IDF-\<close> followed by \<open>n\<close> in decimal, zero-padded to four digits: the part after the
  prefix consists of digits only, has at least four of them, reads back as \<open>n\<close>, has
  exactly four below 10000, and from 10000 on is the plain decimal rendering of \<open>n\<close>
  (the field widens; nothing wraps and nothing fails).
\<close>

theorem docket_number_format:
  assumes "get_next_docket_number seq = (seq', docket)"
  shows "seq' = Suc seq
     \<and> take 4 docket = ascii ''IDF-''
     \<and> drop 4 docket = replicate (4 - length (digits10 seq')) 48 @ digits10 seq'
     \<and> list_all isdigit (drop 4 docket)
     \<and> 4 \<le> length (drop 4 docket)
     \<and> decimal_value (drop 4 docket) = seq'
     \<and> (seq' < 10000 \<longrightarrow> length (drop 4 docket) = 4)
     \<and> (10000 \<le> seq' \<longrightarrow> drop 4 docket = digits10 seq')"
proof -
  note parts = docket_number_parts [OF assms]
  show ?thesis by (intro conjI) (rule parts)+
qed

theorem docket_number_format_witness:
  "get_next_docket_number 41 = (42, ascii ''IDF-0042'')
   \<and> decimal_value (drop 4 (ascii ''IDF-0042'')) = 42"
proof -
  have h: "get_next_docket_number 41 = (42, ascii ''IDF-0042'')" by code_simp
  have "decimal_value (drop 4 (ascii ''IDF-0042'')) = 42"
    using docket_number_format [OF h] by (elim conjE)
  with h show ?thesis by (intro conjI)
qed

section \<open>Properties of the structured extraction\<close>

lemma lstrip_ws: "list_all isspace a \<Longrightarrow> lstrip (a @ s) = lstrip s"
  by (simp add: lstrip_def list_all_iff dropWhile_append2)

lemma lstrip_id: "s \<noteq> [] \<Longrightarrow> \<not> isspace (hd s) \<Longrightarrow> lstrip s = s"
  by (cases s) (simp_all add: lstrip_def)

lemma rstrip_ws: "list_all isspace b \<Longrightarrow> rstrip (s @ b) = rstrip s"
proof -
  assume "list_all isspace b"
  then have "\<And>x. x \<in> set (rev b) \<Longrightarrow> isspace x" by (simp add: list_all_iff)
  then have "dropWhile isspace (rev b @ rev s) = dropWhile isspace (rev s)"
    by (rule dropWhile_append2)
  then show ?thesis by (simp add: rstrip_def)
qed

lemma rstrip_id: "s \<noteq> [] \<Longrightarrow> \<not> isspace (last s) \<Longrightarrow> rstrip s = s"
proof -
  assume a: "s \<noteq> []" "\<not> isspace (last s)"
  then have "rev s \<noteq> []" "\<not> isspace (hd (rev s))" by (simp_all add: hd_rev)
  then have "dropWhile isspace (rev s) = rev s" by (cases "rev s") simp_all
  then show ?thesis by (simp add: rstrip_def)
qed

lemma strip_core:
  assumes "list_all isspace a" "list_all isspace b" "c \<noteq> []"
    "\<not> isspace (hd c)" "\<not> isspace (last c)"
  shows "strip (a @ c @ b) = c"
proof -
  have "lstrip (a @ c @ b) = c @ b"
    using assms by (simp add: lstrip_ws lstrip_id)
  moreover have "rstrip (c @ b) = c" using assms by (simp add: rstrip_ws rstrip_id)
  ultimately show ?thesis by (simp add: strip_def)
qed

lemma strip_id: "c \<noteq> [] \<Longrightarrow> \<not> isspace (hd c) \<Longrightarrow> \<not> isspace (last c) \<Longrightarrow> strip c = c"
  using strip_core[of "[]" "[]" c] by simp

lemma strip_empty: "strip [] = []" by (simp add: strip_def lstrip_def rstrip_def)

lemma rstrip_prefix: "\<exists>t. s = rstrip s @ t \<and> list_all isspace t"
proof -
  have "rev s = takeWhile isspace (rev s) @ dropWhile isspace (rev s)" by simp
  then have "s = rev (dropWhile isspace (rev s)) @ rev (takeWhile isspace (rev s))"
    by (metis rev_append rev_rev_ident)
  moreover have "list_all isspace (rev (takeWhile isspace (rev s)))"
    by (simp add: list_all_iff) (meson set_takeWhileD)
  ultimately show ?thesis unfolding rstrip_def by blast
qed

lemma lstrip_suffix: "\<exists>t. s = t @ lstrip s \<and> list_all isspace t"
proof -
  have "s = takeWhile isspace s @ dropWhile isspace s" by simp
  moreover have "list_all isspace (takeWhile isspace s)"
    by (simp add: list_all_iff) (meson set_takeWhileD)
  ultimately show ?thesis unfolding lstrip_def by blast
qed

lemma strip_decompose: "\<exists>a b. s = a @ strip s @ b \<and> list_all isspace a \<and> list_all isspace b"
proof -
  obtain a where a: "s = a @ lstrip s" "list_all isspace a" using lstrip_suffix by blast
  obtain b where b: "lstrip s = rstrip (lstrip s) @ b" "list_all isspace b"
    using rstrip_prefix by blast
  have "s = a @ strip s @ b" using a(1) b(1) by (simp add: strip_def)
  with a b show ?thesis by blast
qed

lemma fence3: "ascii ''```'' = [96, 96, 96]" by (simp add: ascii_def)
lemma fence7: "ascii ''```json'' = [96, 96, 96, 106, 115, 111, 110]" by (simp add: ascii_def)

lemma not_space_96: "\<not> isspace 96" by (simp add: isspace_def)
lemma not_space_123: "\<not> isspace 123" by (simp add: isspace_def)
lemma not_space_125: "\<not> isspace 125" by (simp add: isspace_def)
lemma not_space_106: "\<not> isspace 106" by (simp add: isspace_def)

lemma object_text_hd:
  assumes "strip inner \<noteq> []" "hd (strip inner) = 123"
  shows "inner \<noteq> []" and "hd inner = 123 \<or> isspace (hd inner)"
proof -
  obtain a b where d: "inner = a @ strip inner @ b" "list_all isspace a"
    using strip_decompose by blast
  show "inner \<noteq> []" using assms(1) by (auto simp: strip_empty)
  show "hd inner = 123 \<or> isspace (hd inner)"
  proof (cases a)
    case Nil
    with d(1) have "hd inner = hd (strip inner @ b)" by simp
    with assms show ?thesis by simp
  next
    case (Cons x xs)
    with d have "hd inner = x" "isspace x" by (metis append_Cons list.sel(1), simp)
    then show ?thesis by simp
  qed
qed

lemma clean_markdown_plain:
  assumes "strip inner \<noteq> []" "hd (strip inner) = 123" "last (strip inner) = 125"
  shows "clean_markdown inner = strip inner"
proof -
  let ?t = "strip inner"
  obtain x xs where t: "?t = x # xs" using assms(1) by (cases ?t) auto
  with assms(2) have x: "x = 123" by simp
  have n7: "\<not> startswith ?t (ascii ''```json'')"
    by (simp add: startswith_def fence7 t x)
  have n3: "\<not> startswith ?t (ascii ''```'')"
    by (simp add: startswith_def fence3 t x)
  have ne: "\<not> endswith ?t (ascii ''```'')"
  proof
    assume "endswith ?t (ascii ''```'')"
    moreover have "length (ascii ''```'') = 3" by (simp add: fence3)
    ultimately have l: "3 \<le> length ?t" and "drop (length ?t - 3) ?t = ascii ''```''"
      by (simp_all add: endswith_def)
    then have "last (drop (length ?t - 3) ?t) = 96" by (simp add: fence3)
    moreover have "last (drop (length ?t - 3) ?t) = last ?t"
      using l assms(1) by (intro last_drop) (cases ?t, auto)
    ultimately show False using assms(3) by simp
  qed
  have "strip ?t = ?t"
    using assms by (intro strip_id) (simp_all add: not_space_123 not_space_125)
  with n7 n3 ne show ?thesis by (simp add: clean_markdown_def Let_def)
qed

lemma endswith_append: "endswith (s @ p) p"
  by (simp add: endswith_def)

lemma clean_markdown_fenced:
  assumes ws: "list_all isspace a" "list_all isspace b"
    and obj: "strip inner \<noteq> []" "hd (strip inner) = 123" "last (strip inner) = 125"
    and tag: "tag = ascii ''```json'' \<or> tag = ascii ''```''"
  shows "clean_markdown (a @ tag @ inner @ ascii ''```'' @ b) = strip inner"
proof -
  note h = object_text_hd [OF obj(1,2)]
  obtain y ys where i: "inner = y # ys" using h(1) by (cases inner) auto
  with h(2) have y: "y \<noteq> 96" "y \<noteq> 106"
    using not_space_96 not_space_106 by auto
  let ?core = "tag @ inner @ ascii ''```''"
  have c: "strip (a @ tag @ inner @ ascii ''```'' @ b) = ?core"
    using strip_core [of a b ?core] ws tag
    by (auto simp: fence3 fence7 not_space_96)
  have n3: "\<not> startswith (inner @ ascii ''```'') (ascii ''```'')"
    using y by (simp add: startswith_def fence3 i)
  have e: "endswith (inner @ ascii ''```'') (ascii ''```'')" by (rule endswith_append)
  have l3: "length (ascii ''```'') = 3" by (simp add: fence3)
  have "clean_markdown (a @ ?core @ b) = strip inner"
    using tag
  proof
    assume t: "tag = ascii ''```json''"
    have s7: "startswith ?core (ascii ''```json'')" by (simp add: startswith_def t)
    have d7: "drop 7 ?core = inner @ ascii ''```''" by (simp add: t fence7)
    show ?thesis
      using c s7 d7 n3 e l3 by (simp add: clean_markdown_def Let_def)
  next
    assume t: "tag = ascii ''```''"
    have s7: "\<not> startswith ?core (ascii ''```json'')"
      using y by (simp add: startswith_def t fence7 fence3 i)
    have s3: "startswith ?core (ascii ''```'')" by (simp add: startswith_def t)
    have d3: "drop 3 ?core = inner @ ascii ''```''" by (simp add: t fence3)
    show ?thesis
      using c s7 s3 d3 e l3 by (simp add: clean_markdown_def Let_def)
  qed
  then show ?thesis by simp
qed

lemma extract_after_answer:
  assumes "openai_api_key env \<noteq> []" "content \<noteq> []"
    and "chat_completions_create env (EXTRACTION_PROMPT_format (truncate_document doc)) = Inr (Some content)"
  shows "extract_disclosure_info env doc = parse_extraction env content"
  using assms by (simp add: extract_disclosure_info_def)

lemma parse_extraction_cong:
  "clean_markdown c1 = clean_markdown c2 \<Longrightarrow> parse_extraction env c1 = parse_extraction env c2"
  by (simp add: parse_extraction_def)

lemma parse_extraction_chat:
  "parse_extraction (env\<lparr>chat_completions_create := f\<rparr>) c = parse_extraction env c"
  by (simp add: parse_extraction_def split: sum.splits)

lemma parse_extraction_failure:
  "json_loads env (clean_markdown content) = Inl (JSONDecodeError msg) \<Longrightarrow>
   parse_extraction env content = Inl (ValueError (ascii ''Invalid JSON response from AI: '' @ msg))"
  by (simp add: parse_extraction_def)

lemma parse_extraction_decoded:
  "json_loads env (clean_markdown content) = Inr data \<Longrightarrow>
   parse_extraction env content =
     (case validate_required required_fields data of
        Inl e \<Rightarrow> Inl e
      | Inr u \<Rightarrow>
          (case stringify_fields (py_str env) required_fields data of
             Inl e \<Rightarrow> Inl e
           | Inr data' \<Rightarrow> ensure_inventors data'))"
  by (simp add: parse_extraction_def)

text \<open>
  C5. A response that wraps the text of a JSON object in a markdown code fence (a leading
  \<open>```json\<close> or \<open>```\<close>, a trailing \<open>```\<close>, white space around the fence and around the
  object) is cleaned to exactly the text of the object, trimmed, which is also what the
  object alone is cleaned to. So the decoder is given the object's text, what it decodes
  is what is validated and normalized, and the fenced response gives the same result as
  the object alone. When the decoder rejects the cleaned text with a \<open>JSONDecodeError\<close>,
  the extraction raises \<open>ValueError\<close> "Invalid JSON response from AI: ..." with the
  decoder's message.
\<close>

theorem fenced_response_parses_as_unwrapped:
  assumes ws: "list_all isspace a" "list_all isspace b"
    and obj: "strip inner \<noteq> []" "hd (strip inner) = 123" "last (strip inner) = 125"
    and tag: "tag = ascii ''```json'' \<or> tag = ascii ''```''"
    and key: "openai_api_key env \<noteq> []"
  shows "clean_markdown (a @ tag @ inner @ ascii ''```'' @ b) = strip inner
    \<and> clean_markdown inner = strip inner
    \<and> parse_extraction env (a @ tag @ inner @ ascii ''```'' @ b) = parse_extraction env inner
    \<and> extract_disclosure_info
          (env\<lparr>chat_completions_create := \<lambda>prompt. Inr (Some (a @ tag @ inner @ ascii ''```'' @ b))\<rparr>) doc
        = extract_disclosure_info
          (env\<lparr>chat_completions_create := \<lambda>prompt. Inr (Some inner)\<rparr>) doc
    \<and> (\<forall>data. json_loads env (strip inner) = Inr data \<longrightarrow>
          extract_disclosure_info
            (env\<lparr>chat_completions_create := \<lambda>prompt. Inr (Some (a @ tag @ inner @ ascii ''```'' @ b))\<rparr>) doc
          = (case validate_required required_fields data of
               Inl e \<Rightarrow> Inl e
             | Inr u \<Rightarrow>
                 (case stringify_fields (py_str env) required_fields data of
                    Inl e \<Rightarrow> Inl e
                  | Inr data' \<Rightarrow> ensure_inventors data')))
    \<and> (\<forall>msg. json_loads env (strip inner) = Inl (JSONDecodeError msg) \<longrightarrow>
          extract_disclosure_info
            (env\<lparr>chat_completions_create := \<lambda>prompt. Inr (Some (a @ tag @ inner @ ascii ''```'' @ b))\<rparr>) doc
          = Inl (ValueError (ascii ''Invalid JSON response from AI: '' @ msg)))
    \<and> (\<forall>content msg.
          chat_completions_create env (EXTRACTION_PROMPT_format (truncate_document doc))
            = Inr (Some content)
          \<and> content \<noteq> []
          \<and> json_loads env (clean_markdown content) = Inl (JSONDecodeError msg)
          \<longrightarrow> extract_disclosure_info env doc
              = Inl (ValueError (ascii ''Invalid JSON response from AI: '' @ msg)))"
proof -
  let ?w = "a @ tag @ inner @ ascii ''```'' @ b"
  let ?envw = "env\<lparr>chat_completions_create := \<lambda>prompt. Inr (Some ?w)\<rparr>"
  have cw: "clean_markdown ?w = strip inner" by (rule clean_markdown_fenced [OF ws obj tag])
  have ci: "clean_markdown inner = strip inner" by (rule clean_markdown_plain [OF obj])
  have p: "parse_extraction env' ?w = parse_extraction env' inner" for env'
    by (rule parse_extraction_cong) (simp add: cw ci)
  have i: "inner \<noteq> []" using object_text_hd(1) [OF obj(1,2)] .
  have t: "tag \<noteq> []" using tag by (auto simp: fence3 fence7)
  have ew: "extract_disclosure_info ?envw doc = parse_extraction env ?w"
    using key t by (simp add: extract_disclosure_info_def parse_extraction_chat)
  have ei: "extract_disclosure_info (env\<lparr>chat_completions_create := \<lambda>prompt. Inr (Some inner)\<rparr>) doc
      = parse_extraction env inner"
    using key i by (simp add: extract_disclosure_info_def parse_extraction_chat)
  have e: "extract_disclosure_info ?envw doc
        = extract_disclosure_info (env\<lparr>chat_completions_create := \<lambda>prompt. Inr (Some inner)\<rparr>) doc"
    by (simp only: ew ei p)
  have d: "extract_disclosure_info ?envw doc
          = (case validate_required required_fields data of
               Inl e \<Rightarrow> Inl e
             | Inr u \<Rightarrow>
                 (case stringify_fields (py_str env) required_fields data of
                    Inl e \<Rightarrow> Inl e
                  | Inr data' \<Rightarrow> ensure_inventors data'))"
    if "json_loads env (strip inner) = Inr data" for data
  proof -
    from that have "json_loads env (clean_markdown ?w) = Inr data" by (simp only: cw)
    from parse_extraction_decoded [OF this] show ?thesis by (simp only: ew)
  qed
  have g: "extract_disclosure_info ?envw doc
          = Inl (ValueError (ascii ''Invalid JSON response from AI: '' @ msg))"
    if "json_loads env (strip inner) = Inl (JSONDecodeError msg)" for msg
  proof -
    from that have "json_loads env (clean_markdown ?w) = Inl (JSONDecodeError msg)"
      by (simp only: cw)
    from parse_extraction_failure [OF this] show ?thesis by (simp only: ew)
  qed
  have f: "extract_disclosure_info env doc
              = Inl (ValueError (ascii ''Invalid JSON response from AI: '' @ msg))"
    if "chat_completions_create env (EXTRACTION_PROMPT_format (truncate_document doc))
            = Inr (Some content)" "content \<noteq> []"
       "json_loads env (clean_markdown content) = Inl (JSONDecodeError msg)" for content msg
    using extract_after_answer [OF key that(2) that(1)] parse_extraction_failure [OF that(3)]
    by simp
  from cw ci p e d g f show ?thesis by blast
qed

theorem fenced_response_parses_as_unwrapped_witness:
  "clean_markdown (ascii ''```json'' @ [10, 123, 125, 10] @ ascii ''```'' @ [10]) = [123, 125]
   \<and> clean_markdown [10, 123, 125, 10] = [123, 125]
   \<and> extract_disclosure_info garbled_env (ascii ''document'')
     = Inl (ValueError (ascii
         ''Invalid JSON response from AI: Expecting value: line 1 column 1 (char 0)''))"
proof -
  have h1: "list_all isspace []" by simp
  have h2: "list_all isspace [10]" by (simp add: isspace_def)
  have s: "strip [10, 123, 125, 10] = [123, 125]"
    by (simp add: strip_def lstrip_def rstrip_def isspace_def)
  have h3: "strip [10, 123, 125, 10] \<noteq> []" by (simp add: s)
  have h4: "hd (strip [10, 123, 125, 10]) = 123" by (simp add: s)
  have h5: "last (strip [10, 123, 125, 10]) = 125" by (simp add: s)
  have h6: "ascii ''```json'' = ascii ''```json'' \<or> ascii ''```json'' = ascii ''```''" by simp
  have h7: "openai_api_key garbled_env \<noteq> []" by (simp add: garbled_env_def ascii_def)
  note t = fenced_response_parses_as_unwrapped
    [OF h1 h2 h3 h4 h5 h6 h7, where doc = "ascii ''document''"]
  from t have "clean_markdown ([] @ ascii ''```json'' @ [10, 123, 125, 10] @ ascii ''```'' @ [10])
     = strip [10, 123, 125, 10]" by (elim conjE)
  then have c1: "clean_markdown (ascii ''```json'' @ [10, 123, 125, 10] @ ascii ''```'' @ [10])
     = [123, 125]" by (simp add: s)
  from t have "clean_markdown [10, 123, 125, 10] = strip [10, 123, 125, 10]" by (elim conjE)
  then have c2: "clean_markdown [10, 123, 125, 10] = [123, 125]" by (simp add: s)
  from t have "\<forall>content msg.
          chat_completions_create garbled_env
            (EXTRACTION_PROMPT_format (truncate_document (ascii ''document'')))
            = Inr (Some content)
          \<and> content \<noteq> []
          \<and> json_loads garbled_env (clean_markdown content) = Inl (JSONDecodeError msg)
          \<longrightarrow> extract_disclosure_info garbled_env (ascii ''document'')
              = Inl (ValueError (ascii ''Invalid JSON response from AI: '' @ msg))"
    by (elim conjE)
  then have f: "extract_disclosure_info garbled_env (ascii ''document'')
     = Inl (ValueError (ascii ''Invalid JSON response from AI: ''
          @ ascii ''Expecting value: line 1 column 1 (char 0)''))"
    by (simp add: garbled_env_def ascii_def)
  have "ascii ''Invalid JSON response from AI: '' @ ascii ''Expecting value: line 1 column 1 (char 0)''
      = ascii ''Invalid JSON response from AI: Expecting value: line 1 column 1 (char 0)''"
    by (simp add: ascii_def)
  with c1 c2 f show ?thesis by simp
qed

text \<open>
  C6. The list conversion at the input of the claim: \<open>key_differences\<close> given as
  \<open>["a", "b"]\<close>. The stored string is newline-separated, but each element is prefixed by
  the four code points U+00E2 U+20AC U+00A2 U+0020 of the source file, not by the bullet
  U+2022 and a space that the claim and the repository's own test
  \<open>test_extract_converts_list_to_string\<close> expect.
\<close>

theorem list_field_joined_with_source_bullet:
  "extract_disclosure_info list_env (ascii ''document'') =
     Inr (JObj
       [(ascii ''title'', JStr (ascii ''T'')),
        (ascii ''description'', JStr (ascii ''D'')),
        (ascii ''key_differences'',
           JStr [0xE2, 0x20AC, 0xA2, 0x20, 97, 10, 0xE2, 0x20AC, 0xA2, 0x20, 98]),
        (ascii ''inventors'', JArr [])])
   \<and> [0xE2, 0x20AC, 0xA2, 0x20, 97, 10, 0xE2, 0x20AC, 0xA2, 0x20, 98]
       \<noteq> [0x2022, 0x20, 97, 10, 0x2022, 0x20, (98::nat)]"
  by (simp add: extract_disclosure_info_def parse_extraction_def list_env_def list_response_def
      required_fields_def bullet_join_def bullet_prefix_def format_item_def ensure_inventors_def
      ascii_def)

section \<open>Properties of the upload\<close>

lemma insert_disclosure_Inr:
  assumes "insert_disclosure env dn ex fname d = Inr (d1, row)"
  shows "d1 = d\<lparr>disclosures := disclosures d @ [row], uuid_supply := Suc (uuid_supply d)\<rparr>"
    and "d_id row = uuid_supply d" and "d_status row = default_status"
    and "d_pdf_object_key row = None" and "d_docket_number row = dn"
    and "d_original_filename row = Some fname"
    and "insert_disclosure_fault env = None"
  using assms
  by (auto simp: insert_disclosure_def Let_def split: sum.splits option.splits)

lemma ensure_bucket_exists_keeps:
  "ensure_bucket_exists env w = (w1, r) \<Longrightarrow> db w1 = db w \<and> objects w1 = objects w"
  by (auto simp: ensure_bucket_exists_def logger_def split: option.splits exc.splits)

lemma upload_pdf_Inr:
  assumes "upload_pdf env did fname content w = (w1, Inr k)"
  shows "k = ascii ''disclosures/'' @ did @ ascii ''/'' @ fname"
    and "objects w1 = (objects w)(k \<mapsto> content)" and "db w1 = db w"
  using assms ensure_bucket_exists_keeps [of env w]
  by (auto simp: upload_pdf_def logger_def Let_def split: prod.splits option.splits exc.splits)

lemma upload_pdf_Inl:
  assumes "upload_pdf env did fname content w = (w1, Inl e)"
  shows "objects w1 = objects w" and "db w1 = db w"
  using assms ensure_bucket_exists_keeps [of env w]
  by (auto simp: upload_pdf_def logger_def Let_def split: prod.splits option.splits exc.splits)

lemma upload_pdf_db: "db (fst (upload_pdf env did fname content w)) = db w"
  using upload_pdf_Inl(2) [of env did fname content w] upload_pdf_Inr(3) [of env did fname content w]
  by (cases "upload_pdf env did fname content w") (metis fst_conv sum.exhaust)

lemma set_object_key_keeps:
  "inventors (set_object_key k did d) = inventors d"
  "status_history (set_object_key k did d) = status_history d"
  "uuid_supply (set_object_key k did d) = uuid_supply d"
  "docket_seq (set_object_key k did d) = docket_seq d"
  "length (disclosures (set_object_key k did d)) = length (disclosures d)"
  by (simp_all add: set_object_key_def)

lemma attach_pdf_keeps:
  assumes "attach_pdf env disclosure fname content w = (w2, disclosure2, aborted)"
  shows "inventors (db w2) = inventors (db w)"
    and "status_history (db w2) = status_history (db w)"
    and "uuid_supply (db w2) = uuid_supply (db w)"
    and "docket_seq (db w2) = docket_seq (db w)"
    and "length (disclosures (db w2)) = length (disclosures (db w))"
    and "d_id disclosure2 = d_id disclosure"
    and "d_status disclosure2 = d_status disclosure"
proof -
  obtain w1 r where u: "upload_pdf env (uuid_str env (d_id disclosure)) fname content w = (w1, r)"
    by (cases "upload_pdf env (uuid_str env (d_id disclosure)) fname content w") auto
  have d: "db w1 = db w"
    using upload_pdf_db [of env "uuid_str env (d_id disclosure)" fname content w] u by simp
  show "inventors (db w2) = inventors (db w)"
    and "status_history (db w2) = status_history (db w)"
    and "uuid_supply (db w2) = uuid_supply (db w)"
    and "docket_seq (db w2) = docket_seq (db w)"
    and "length (disclosures (db w2)) = length (disclosures (db w))"
    and "d_id disclosure2 = d_id disclosure"
    and "d_status disclosure2 = d_status disclosure"
    using assms u d
    by (auto simp: attach_pdf_def logger_def set_object_key_keeps split: sum.splits option.splits)
qed

lemma insert_inventor_Inr:
  assumes "insert_inventor env did aborted n inventor d = Inr (d1, row)"
  shows "d1 = d\<lparr>inventors := inventors d @ [row], uuid_supply := Suc (uuid_supply d)\<rparr>"
    and "i_disclosure_id row = did"
    and "insert_inventor_fault env n = None" and "\<not> aborted"
  using assms
  by (auto simp: insert_inventor_def statement_fails_def Let_def
      split: sum.splits option.splits if_splits)

lemma insert_inventors_Inr:
  "insert_inventors env did aborted n invs d = Inr (d1, rows) \<Longrightarrow>
     disclosures d1 = disclosures d \<and> status_history d1 = status_history d
     \<and> docket_seq d1 = docket_seq d
     \<and> inventors d1 = inventors d @ rows
     \<and> length rows = length invs
     \<and> list_all (\<lambda>r. i_disclosure_id r = did) rows
     \<and> (\<forall>k < length invs. insert_inventor_fault env (n + k) = None)
     \<and> (invs \<noteq> [] \<longrightarrow> \<not> aborted)"
proof (induction invs arbitrary: n d d1 rows)
  case Nil
  then show ?case by simp
next
  case (Cons inventor rest)
  from Cons.prems obtain d2 row rows' where
    a: "insert_inventor env did aborted n inventor d = Inr (d2, row)"
    and b: "insert_inventors env did aborted (Suc n) rest d2 = Inr (d1, rows')"
    and r: "rows = row # rows'"
    by (auto split: sum.splits prod.splits)
  note i = insert_inventor_Inr [OF a]
  note ih = Cons.IH [OF b]
  have f: "insert_inventor_fault env (n + k) = None" if "k < length (inventor # rest)" for k
  proof (cases k)
    case 0 with i(3) show ?thesis by simp
  next
    case (Suc j)
    with that have "j < length rest" by simp
    with ih have "insert_inventor_fault env (Suc n + j) = None" by blast
    with Suc show ?thesis by simp
  qed
  from i ih r f show ?case by (simp add: i(1))
qed

lemma insert_history_Inr:
  assumes "insert_history env did st aborted d = Inr (d1, row)"
  shows "d1 = d\<lparr>status_history := status_history d @ [row], uuid_supply := Suc (uuid_supply d)\<rparr>"
    and "h_disclosure_id row = did" and "h_status row = st" and "h_changed_at row = now env"
    and "insert_history_fault env = None" and "\<not> aborted"
  using assms
  by (auto simp: insert_history_def append_history_def statement_fails_def Let_def
      split: option.splits if_splits)

lemma create_disclosure_stages:
  assumes "create_disclosure env dn ex fname content w = (w', Inr resp)"
  obtains d1 disclosure w2 disclosure2 aborted invs inv_list d3 rows d4 h where
    "insert_disclosure env dn ex fname (db w) = Inr (d1, disclosure)"
    "attach_pdf env disclosure fname content (w\<lparr>db := d1\<rparr>) = (w2, disclosure2, aborted)"
    "py_get ex (ascii ''inventors'') (JArr []) = Inr invs"
    "py_iter invs = Inr inv_list"
    "insert_inventors env (d_id disclosure2) aborted 0 inv_list (db w2) = Inr (d3, rows)"
    "insert_history env (d_id disclosure2) (d_status disclosure2) aborted d3 = Inr (d4, h)"
    "w' = w2\<lparr>db := d4\<rparr>"
    "resp = \<lparr>r_disclosure = to_Disclosure disclosure2, r_inventors = rows,
             r_status_history = [h], r_message = ascii ''Disclosure created successfully''\<rparr>"
  using assms
  by (auto simp: create_disclosure_def split: sum.splits prod.splits)

lemma create_disclosure_Inr:
  assumes "create_disclosure env dn ex fname content w = (w', Inr resp)"
  shows "length (disclosures (db w')) = Suc (length (disclosures (db w)))"
    and "inventors (db w') = inventors (db w) @ r_inventors resp"
    and "status_history (db w') = status_history (db w) @ r_status_history resp"
    and "\<exists>h. r_status_history resp = [h] \<and> h_status h = default_status
              \<and> h_disclosure_id h = o_id (r_disclosure resp)"
    and "docket_seq (db w') = docket_seq (db w)"
    and "insert_disclosure_fault env = None"
    and "insert_history_fault env = None"
    and "\<forall>k < length (r_inventors resp). insert_inventor_fault env k = None"
    and "list_all (\<lambda>r. i_disclosure_id r = o_id (r_disclosure resp)) (r_inventors resp)"
    and "o_status (r_disclosure resp) = default_status"
    and "o_docket_number (r_disclosure resp) = dn"
proof -
  from assms obtain d1 disclosure w2 disclosure2 aborted invs inv_list d3 rows d4 h where
    a: "insert_disclosure env dn ex fname (db w) = Inr (d1, disclosure)"
    and b: "attach_pdf env disclosure fname content (w\<lparr>db := d1\<rparr>) = (w2, disclosure2, aborted)"
    and c: "insert_inventors env (d_id disclosure2) aborted 0 inv_list (db w2) = Inr (d3, rows)"
    and d: "insert_history env (d_id disclosure2) (d_status disclosure2) aborted d3 = Inr (d4, h)"
    and w': "w' = w2\<lparr>db := d4\<rparr>"
    and resp: "resp = \<lparr>r_disclosure = to_Disclosure disclosure2, r_inventors = rows,
             r_status_history = [h], r_message = ascii ''Disclosure created successfully''\<rparr>"
    by (rule create_disclosure_stages)
  note ia = insert_disclosure_Inr [OF a]
  note ib = attach_pdf_keeps [OF b]
  note ic = insert_inventors_Inr [OF c]
  note id = insert_history_Inr [OF d]
  have dn2: "d_docket_number disclosure2 = dn"
    using b ia(5)
    by (auto simp: attach_pdf_def split: prod.splits sum.splits option.splits)
  show "length (disclosures (db w')) = Suc (length (disclosures (db w)))"
    using ia(1) ib(5) ic id(1) by (simp add: w')
  show "inventors (db w') = inventors (db w) @ r_inventors resp"
    using ia(1) ib(1) ic id(1) by (simp add: w' resp)
  show "status_history (db w') = status_history (db w) @ r_status_history resp"
    using ia(1) ib(2) ic id(1) by (simp add: w' resp)
  show "\<exists>h. r_status_history resp = [h] \<and> h_status h = default_status
              \<and> h_disclosure_id h = o_id (r_disclosure resp)"
    using ia(3) ib(7) id(2,3) by (simp add: resp to_Disclosure_def)
  show "docket_seq (db w') = docket_seq (db w)"
    using ia(1) ib(4) ic id(1) by (simp add: w')
  show "insert_disclosure_fault env = None" by (rule ia(7))
  show "insert_history_fault env = None" by (rule id(5))
  show "\<forall>k < length (r_inventors resp). insert_inventor_fault env k = None"
    using ic by (simp add: resp)
  show "list_all (\<lambda>r. i_disclosure_id r = o_id (r_disclosure resp)) (r_inventors resp)"
    using ic by (simp add: resp to_Disclosure_def)
  show "o_status (r_disclosure resp) = default_status"
    using ia(3) ib(7) by (simp add: resp to_Disclosure_def)
  show "o_docket_number (r_disclosure resp) = dn"
    using dn2 by (simp add: resp to_Disclosure_def)
qed

lemma transaction_Inl:
  assumes "transaction body w = (w', Inl e)"
  shows "disclosures (db w') = disclosures (db w)"
    and "inventors (db w') = inventors (db w)"
    and "status_history (db w') = status_history (db w)"
  using assms
  by (auto simp: transaction_def rollback_def split: prod.splits sum.splits)

lemma transaction_Inr: "transaction body w = (w', Inr r) \<Longrightarrow> body w = (w', Inr r)"
  by (auto simp: transaction_def split: prod.splits sum.splits)

lemma upload_outcome:
  assumes "upload_disclosure env file w = (w', res)"
  shows "(w' = w \<and> isl res)
    \<or> (\<exists>fname content text ex seq1 dn r.
          filename file = Some fname \<and> file_read file = Inr content
          \<and> extract_text_from_pdf (fitz_open env) content = Inr text
          \<and> \<not> length (strip text) < 50
          \<and> extract_disclosure_info (extraction env) text = Inr ex
          \<and> get_next_docket_number (docket_seq (db w)) = (seq1, dn)
          \<and> transaction (create_disclosure env dn ex fname content)
                (w\<lparr>db := (db w)\<lparr>docket_seq := seq1\<rparr>\<rparr>) = (w', r)
          \<and> res = (case r of Inl e \<Rightarrow> Inl (Unhandled e) | Inr resp \<Rightarrow> Inr resp))"
  using assms
  by (auto simp: upload_disclosure_def split: option.splits sum.splits if_splits prod.splits exc.splits)

lemmas example_defs = example_env_def example_extraction_def example_file_def empty_world_def
  two_inventor_response_def

lemmas upload_eval_defs = upload_disclosure_def extract_text_from_pdf_def strip_def lstrip_def
  rstrip_def isspace_def extract_disclosure_info_def parse_extraction_def required_fields_def
  ensure_inventors_def ascii_def lower_def endswith_def get_next_docket_number_def nextval_def
  transaction_def create_disclosure_def insert_disclosure_def attach_pdf_def upload_pdf_def
  ensure_bucket_exists_def head_bucket_def logger_def set_object_key_def insert_inventor_def
  insert_history_def append_history_def statement_fails_def Let_def rollback_def

text \<open>
  C7. When the text extracted from the uploaded document is, after trimming white space,
  shorter than 50 characters, the upload is rejected with status 400 and the detail
  "Could not extract sufficient text from PDF ...", and the state after the request is
  the state before it: no row is written and the docket sequence is not advanced.
\<close>

theorem short_text_is_rejected:
  assumes "filename file = Some fname" and "fname \<noteq> []"
    and "endswith (lower fname) (ascii ''.pdf'')"
    and "file_read file = Inr content"
    and "extract_text_from_pdf (fitz_open env) content = Inr text"
    and "length (strip text) < 50"
  shows "upload_disclosure env file w =
     (w, Inl (HTTPException 400 (ascii
        ''Could not extract sufficient text from PDF. The file may be image-based or corrupted.'')))"
  using assms by (simp add: upload_disclosure_def)

theorem short_text_is_rejected_witness:
  "upload_disclosure (example_env\<lparr>fitz_open := \<lambda>b. Inr [Inr (replicate 30 120)]\<rparr>) example_file empty_world =
     (empty_world, Inl (HTTPException 400 (ascii
        ''Could not extract sufficient text from PDF. The file may be image-based or corrupted.'')))"
proof -
  let ?env = "example_env\<lparr>fitz_open := \<lambda>b. Inr [Inr (replicate 30 120)]\<rparr>"
  have h1: "filename example_file = Some (ascii ''idea.PDF'')" by (simp add: example_file_def)
  have h2: "ascii ''idea.PDF'' \<noteq> []" by (simp add: ascii_def)
  have h3: "endswith (lower (ascii ''idea.PDF'')) (ascii ''.pdf'')"
    by (simp add: endswith_def lower_def ascii_def)
  have h4: "file_read example_file = Inr [37, 80, 68, 70]" by (simp add: example_file_def)
  have h5: "extract_text_from_pdf (fitz_open ?env) [37, 80, 68, 70] = Inr (replicate 30 120)"
    by (simp add: extract_text_from_pdf_def strip_def lstrip_def rstrip_def isspace_def)
  have h6: "length (strip (replicate 30 120)) < 50"
    by (simp add: strip_def lstrip_def rstrip_def isspace_def)
  show ?thesis by (rule short_text_is_rejected [OF h1 h2 h3 h4 h5 h6])
qed

lemma set_object_key_view:
  "map to_Disclosure (disclosures (set_object_key k did d)) = map to_Disclosure (disclosures d)"
  by (simp add: set_object_key_def to_Disclosure_def)

lemma attach_pdf_view:
  assumes "attach_pdf env disclosure fname content w = (w2, disclosure2, aborted)"
  shows "map to_Disclosure (disclosures (db w2)) = map to_Disclosure (disclosures (db w))"
    and "to_Disclosure disclosure2 = to_Disclosure disclosure"
proof -
  obtain w1 r where u: "upload_pdf env (uuid_str env (d_id disclosure)) fname content w = (w1, r)"
    by (cases "upload_pdf env (uuid_str env (d_id disclosure)) fname content w") auto
  have d: "db w1 = db w"
    using upload_pdf_db [of env "uuid_str env (d_id disclosure)" fname content w] u by simp
  show "map to_Disclosure (disclosures (db w2)) = map to_Disclosure (disclosures (db w))"
    using assms u d
    by (auto simp: attach_pdf_def logger_def set_object_key_view split: sum.splits option.splits)
  show "to_Disclosure disclosure2 = to_Disclosure disclosure"
    using assms u
    by (auto simp: attach_pdf_def to_Disclosure_def split: sum.splits option.splits)
qed

lemma insert_inventor_row:
  assumes "insert_inventor env did aborted n inventor d = Inr (d1, row)"
  shows "py_get inventor (ascii ''name'') (JStr (ascii ''Unknown'')) = Inr (JStr (i_name row))"
    and "i_disclosure_id row = did"
  using assms
  by (auto simp: insert_inventor_def statement_fails_def Let_def
      split: sum.splits option.splits if_splits elim!: text_param.elims required_text.elims)

lemma insert_inventors_rows:
  "insert_inventors env did aborted n invs d = Inr (d1, rows) \<Longrightarrow> k < length invs \<Longrightarrow>
     py_get (invs ! k) (ascii ''name'') (JStr (ascii ''Unknown'')) = Inr (JStr (i_name (rows ! k)))
     \<and> i_disclosure_id (rows ! k) = did"
proof (induction invs arbitrary: n d d1 rows k)
  case Nil
  then show ?case by simp
next
  case (Cons inventor rest)
  from Cons.prems(1) obtain d2 row rows' where
    a: "insert_inventor env did aborted n inventor d = Inr (d2, row)"
    and b: "insert_inventors env did aborted (Suc n) rest d2 = Inr (d1, rows')"
    and r: "rows = row # rows'"
    by (auto split: sum.splits prod.splits)
  show ?case
  proof (cases k)
    case 0
    with insert_inventor_row [OF a] r show ?thesis by simp
  next
    case (Suc j)
    with Cons.prems(2) have "j < length rest" by simp
    from Cons.IH [OF b this] Suc r show ?thesis by simp
  qed
qed

lemma create_disclosure_rows:
  assumes "create_disclosure env dn ex fname content w = (w', Inr resp)"
  shows "map to_Disclosure (disclosures (db w'))
           = map to_Disclosure (disclosures (db w)) @ [r_disclosure resp]"
    and "\<exists>invs inv_list.
           py_get ex (ascii ''inventors'') (JArr []) = Inr invs \<and> py_iter invs = Inr inv_list
           \<and> length (r_inventors resp) = length inv_list
           \<and> (\<forall>k < length inv_list.
                 py_get (inv_list ! k) (ascii ''name'') (JStr (ascii ''Unknown''))
                   = Inr (JStr (i_name (r_inventors resp ! k)))
                 \<and> i_disclosure_id (r_inventors resp ! k) = o_id (r_disclosure resp)
                 \<and> insert_inventor_fault env k = None)"
proof -
  from assms obtain d1 disclosure w2 disclosure2 aborted invs inv_list d3 rows d4 h where
    a: "insert_disclosure env dn ex fname (db w) = Inr (d1, disclosure)"
    and b: "attach_pdf env disclosure fname content (w\<lparr>db := d1\<rparr>) = (w2, disclosure2, aborted)"
    and g: "py_get ex (ascii ''inventors'') (JArr []) = Inr invs" "py_iter invs = Inr inv_list"
    and c: "insert_inventors env (d_id disclosure2) aborted 0 inv_list (db w2) = Inr (d3, rows)"
    and d: "insert_history env (d_id disclosure2) (d_status disclosure2) aborted d3 = Inr (d4, h)"
    and w': "w' = w2\<lparr>db := d4\<rparr>"
    and resp: "resp = \<lparr>r_disclosure = to_Disclosure disclosure2, r_inventors = rows,
             r_status_history = [h], r_message = ascii ''Disclosure created successfully''\<rparr>"
    by (rule create_disclosure_stages)
  note ia = insert_disclosure_Inr [OF a]
  note ib = attach_pdf_view [OF b]
  note ic = insert_inventors_Inr [OF c]
  note id = insert_history_Inr [OF d]
  have "disclosures d4 = disclosures (db w2)" using ic id(1) by simp
  then show "map to_Disclosure (disclosures (db w'))
           = map to_Disclosure (disclosures (db w)) @ [r_disclosure resp]"
    using ib ia(1) by (simp add: w' resp)
  have "\<forall>k < length inv_list.
                 py_get (inv_list ! k) (ascii ''name'') (JStr (ascii ''Unknown''))
                   = Inr (JStr (i_name (rows ! k)))
                 \<and> i_disclosure_id (rows ! k) = d_id disclosure2
                 \<and> insert_inventor_fault env k = None"
    using insert_inventors_rows [OF c] ic by simp
  moreover have "o_id (r_disclosure resp) = d_id disclosure2" by (simp add: resp to_Disclosure_def)
  moreover have "length rows = length inv_list" using ic by simp
  ultimately show "\<exists>invs inv_list.
           py_get ex (ascii ''inventors'') (JArr []) = Inr invs \<and> py_iter invs = Inr inv_list
           \<and> length (r_inventors resp) = length inv_list
           \<and> (\<forall>k < length inv_list.
                 py_get (inv_list ! k) (ascii ''name'') (JStr (ascii ''Unknown''))
                   = Inr (JStr (i_name (r_inventors resp ! k)))
                 \<and> i_disclosure_id (r_inventors resp ! k) = o_id (r_disclosure resp)
                 \<and> insert_inventor_fault env k = None)"
    using g by (simp add: resp)
qed

lemma upload_Inl:
  assumes "upload_disclosure env file w = (w', Inl err)"
  shows "disclosures (db w') = disclosures (db w)"
    and "inventors (db w') = inventors (db w)"
    and "status_history (db w') = status_history (db w)"
proof -
  from upload_outcome [OF assms]
  have "disclosures (db w') = disclosures (db w) \<and> inventors (db w') = inventors (db w)
      \<and> status_history (db w') = status_history (db w)"
  proof (elim disjE exE conjE)
    assume "w' = w"
    then show ?thesis by simp
  next
    fix fname content doc ex seq1 dn r
    assume t: "transaction (create_disclosure env dn ex fname content)
                (w\<lparr>db := (db w)\<lparr>docket_seq := seq1\<rparr>\<rparr>) = (w', r)"
      and res: "Inl err = (case r of Inl e \<Rightarrow> Inl (Unhandled e) | Inr resp \<Rightarrow> Inr resp)"
    from res obtain e where "r = Inl e" by (cases r) auto
    with t have tt: "transaction (create_disclosure env dn ex fname content)
                (w\<lparr>db := (db w)\<lparr>docket_seq := seq1\<rparr>\<rparr>) = (w', Inl e)" by simp
    note q = transaction_Inl [OF tt]
    from q show ?thesis by simp
  qed
  then show "disclosures (db w') = disclosures (db w)"
    and "inventors (db w') = inventors (db w)"
    and "status_history (db w') = status_history (db w)" by simp_all
qed

lemma upload_Inr:
  assumes "upload_disclosure env file w = (w', Inr resp)"
  obtains fname content doc ex seq1 dn where
    "filename file = Some fname" "file_read file = Inr content"
    "extract_text_from_pdf (fitz_open env) content = Inr doc"
    "extract_disclosure_info (extraction env) doc = Inr ex"
    "create_disclosure env dn ex fname content (w\<lparr>db := (db w)\<lparr>docket_seq := seq1\<rparr>\<rparr>)
       = (w', Inr resp)"
proof -
  from upload_outcome [OF assms] that show ?thesis
  proof (elim disjE exE conjE)
    assume "isl (Inr resp :: http_error + UploadResponse)"
    then show ?thesis by simp
  next
    fix fname content doc ex seq1 dn r
    assume s: "filename file = Some fname" "file_read file = Inr content"
      "extract_text_from_pdf (fitz_open env) content = Inr doc"
      "extract_disclosure_info (extraction env) doc = Inr ex"
    assume t: "transaction (create_disclosure env dn ex fname content)
                (w\<lparr>db := (db w)\<lparr>docket_seq := seq1\<rparr>\<rparr>) = (w', r)"
      and res: "Inr resp = (case r of Inl e \<Rightarrow> Inl (Unhandled e) | Inr resp \<Rightarrow> Inr resp)"
    assume th: "\<And>fname content doc ex dn seq1.
        filename file = Some fname \<Longrightarrow> file_read file = Inr content \<Longrightarrow>
        extract_text_from_pdf (fitz_open env) content = Inr doc \<Longrightarrow>
        extract_disclosure_info (extraction env) doc = Inr ex \<Longrightarrow>
        create_disclosure env dn ex fname content (w\<lparr>db := (db w)\<lparr>docket_seq := seq1\<rparr>\<rparr>)
          = (w', Inr resp) \<Longrightarrow> thesis"
    from res have "r = Inr resp" by (cases r) auto
    with t have "transaction (create_disclosure env dn ex fname content)
                (w\<lparr>db := (db w)\<lparr>docket_seq := seq1\<rparr>\<rparr>) = (w', Inr resp)" by simp
    then have c: "create_disclosure env dn ex fname content
                (w\<lparr>db := (db w)\<lparr>docket_seq := seq1\<rparr>\<rparr>) = (w', Inr resp)"
      by (rule transaction_Inr)
    from th [OF s c] show ?thesis .
  qed
qed

lemma upload_Inr_rows:
  assumes "upload_disclosure env file w = (w', Inr resp)"
  obtains fname content doc ex invs inv_list where
    "map to_Disclosure (disclosures (db w'))
       = map to_Disclosure (disclosures (db w)) @ [r_disclosure resp]"
    "inventors (db w') = inventors (db w) @ r_inventors resp"
    "status_history (db w') = status_history (db w) @ r_status_history resp"
    "length (r_status_history resp) = 1"
    "insert_disclosure_fault env = None"
    "insert_history_fault env = None"
    "filename file = Some fname" "file_read file = Inr content"
    "extract_text_from_pdf (fitz_open env) content = Inr doc"
    "extract_disclosure_info (extraction env) doc = Inr ex"
    "py_get ex (ascii ''inventors'') (JArr []) = Inr invs"
    "py_iter invs = Inr inv_list"
    "length (r_inventors resp) = length inv_list"
    "\<forall>k < length inv_list.
        py_get (inv_list ! k) (ascii ''name'') (JStr (ascii ''Unknown''))
          = Inr (JStr (i_name (r_inventors resp ! k)))
        \<and> i_disclosure_id (r_inventors resp ! k) = o_id (r_disclosure resp)
        \<and> insert_inventor_fault env k = None"
proof -
  from assms obtain fname content doc ex seq1 dn where
    s: "filename file = Some fname" "file_read file = Inr content"
      "extract_text_from_pdf (fitz_open env) content = Inr doc"
      "extract_disclosure_info (extraction env) doc = Inr ex"
    and c: "create_disclosure env dn ex fname content (w\<lparr>db := (db w)\<lparr>docket_seq := seq1\<rparr>\<rparr>)
       = (w', Inr resp)"
    by (rule upload_Inr)
  note p = create_disclosure_Inr [OF c]
  note q = create_disclosure_rows [OF c]
  from p(4) have l: "length (r_status_history resp) = 1" by auto
  have v: "map to_Disclosure (disclosures (db w'))
               = map to_Disclosure (disclosures (db w)) @ [r_disclosure resp]"
    using q(1) by simp
  have i: "inventors (db w') = inventors (db w) @ r_inventors resp" using p(2) by simp
  have h: "status_history (db w') = status_history (db w) @ r_status_history resp"
    using p(3) by simp
  from q(2) obtain invs inv_list where
    g: "py_get ex (ascii ''inventors'') (JArr []) = Inr invs" "py_iter invs = Inr inv_list"
      "length (r_inventors resp) = length inv_list"
      "\<forall>k < length inv_list.
                 py_get (inv_list ! k) (ascii ''name'') (JStr (ascii ''Unknown''))
                   = Inr (JStr (i_name (r_inventors resp ! k)))
                 \<and> i_disclosure_id (r_inventors resp ! k) = o_id (r_disclosure resp)
                 \<and> insert_inventor_fault env k = None"
    by blast
  show ?thesis by (rule that [OF v i h l p(6) p(7) s(1) s(2) s(3) s(4) g(1) g(2) g(3) g(4)])
qed

lemma upload_fault_fails:
  assumes run: "upload_disclosure env file w = (w', res)"
    and s: "filename file = Some fname" "file_read file = Inr content"
      "extract_text_from_pdf (fitz_open env) content = Inr doc"
      "extract_disclosure_info (extraction env) doc = Inr ex"
      "py_get ex (ascii ''inventors'') (JArr []) = Inr invs"
      "py_iter invs = Inr inv_list"
    and f: "insert_disclosure_fault env \<noteq> None
               \<or> insert_history_fault env \<noteq> None
               \<or> (\<exists>k < length inv_list. insert_inventor_fault env k \<noteq> None)"
  shows "\<exists>err. res = Inl err"
proof (cases res)
  case (Inl err)
  then show ?thesis by (intro exI)
next
  case (Inr resp)
  with run have r: "upload_disclosure env file w = (w', Inr resp)" by simp
  have False
  proof (rule upload_Inr_rows [OF r])
    fix fname' content' doc' ex' invs' inv_list'
    assume o1: "insert_disclosure_fault env = None" and o2: "insert_history_fault env = None"
      and o4: "file_read file = Inr content'"
      and o5: "extract_text_from_pdf (fitz_open env) content' = Inr doc'"
      and o6: "extract_disclosure_info (extraction env) doc' = Inr ex'"
      and o7: "py_get ex' (ascii ''inventors'') (JArr []) = Inr invs'"
      and o8: "py_iter invs' = Inr inv_list'"
      and o9: "\<forall>k < length inv_list'.
        py_get (inv_list' ! k) (ascii ''name'') (JStr (ascii ''Unknown''))
          = Inr (JStr (i_name (r_inventors resp ! k)))
        \<and> i_disclosure_id (r_inventors resp ! k) = o_id (r_disclosure resp)
        \<and> insert_inventor_fault env k = None"
    have e1: "content' = content" using o4 s(2) by (metis sum.inject(2))
    have e2: "doc' = doc" using o5 s(3) unfolding e1 by (metis sum.inject(2))
    have e3: "ex' = ex" using o6 s(4) unfolding e2 by (metis sum.inject(2))
    have e4: "invs' = invs" using o7 s(5) unfolding e3 by (metis sum.inject(2))
    have e5: "inv_list' = inv_list" using o8 s(6) unfolding e4 by (metis sum.inject(2))
    from f o1 o2 obtain k where k: "k < length inv_list" "insert_inventor_fault env k \<noteq> None"
      by metis
    from o9 k(1) have "insert_inventor_fault env k = None" unfolding e5 by metis
    with k(2) show False by (rule notE)
  qed
  then show ?thesis by (rule FalseE)
qed

text \<open>
  C2. The rows of one upload are written all or none. When the upload fails, whatever
  the failure, the three tables are what they were before the request. When it
  succeeds, the disclosure table has grown by the disclosure of the response, the
  inventor table by one row for each inventor of the extracted list, in order, each
  with that inventor's name and the new disclosure's identifier, and the history table
  by the one history row of the response; and then none of these inserts had failed.
  So when the insert of the disclosure row, of any inventor row or of the history row
  fails, the upload fails and nothing of it stays in the three tables.
\<close>

theorem upload_is_atomic:
  assumes "upload_disclosure env file w = (w', res)"
  shows "(case res of
           Inl err \<Rightarrow>
             disclosures (db w') = disclosures (db w)
             \<and> inventors (db w') = inventors (db w)
             \<and> status_history (db w') = status_history (db w)
         | Inr resp \<Rightarrow>
             map to_Disclosure (disclosures (db w'))
               = map to_Disclosure (disclosures (db w)) @ [r_disclosure resp]
             \<and> inventors (db w') = inventors (db w) @ r_inventors resp
             \<and> status_history (db w') = status_history (db w) @ r_status_history resp
             \<and> length (r_status_history resp) = 1
             \<and> insert_disclosure_fault env = None
             \<and> insert_history_fault env = None
             \<and> (\<exists>fname content doc ex invs inv_list.
                   filename file = Some fname \<and> file_read file = Inr content
                   \<and> extract_text_from_pdf (fitz_open env) content = Inr doc
                   \<and> extract_disclosure_info (extraction env) doc = Inr ex
                   \<and> py_get ex (ascii ''inventors'') (JArr []) = Inr invs
                   \<and> py_iter invs = Inr inv_list
                   \<and> length (r_inventors resp) = length inv_list
                   \<and> (\<forall>k < length inv_list.
                         py_get (inv_list ! k) (ascii ''name'') (JStr (ascii ''Unknown''))
                           = Inr (JStr (i_name (r_inventors resp ! k)))
                         \<and> i_disclosure_id (r_inventors resp ! k) = o_id (r_disclosure resp)
                         \<and> insert_inventor_fault env k = None)))
    \<and> (\<forall>fname content doc ex invs inv_list.
          filename file = Some fname \<and> file_read file = Inr content
          \<and> extract_text_from_pdf (fitz_open env) content = Inr doc
          \<and> extract_disclosure_info (extraction env) doc = Inr ex
          \<and> py_get ex (ascii ''inventors'') (JArr []) = Inr invs
          \<and> py_iter invs = Inr inv_list
          \<and> (insert_disclosure_fault env \<noteq> None
               \<or> insert_history_fault env \<noteq> None
               \<or> (\<exists>k < length inv_list. insert_inventor_fault env k \<noteq> None))
          \<longrightarrow> (\<exists>err. res = Inl err)
              \<and> disclosures (db w') = disclosures (db w)
              \<and> inventors (db w') = inventors (db w)
              \<and> status_history (db w') = status_history (db w))"
proof (rule conjI)
  show "case res of
           Inl err \<Rightarrow>
             disclosures (db w') = disclosures (db w)
             \<and> inventors (db w') = inventors (db w)
             \<and> status_history (db w') = status_history (db w)
         | Inr resp \<Rightarrow>
             map to_Disclosure (disclosures (db w'))
               = map to_Disclosure (disclosures (db w)) @ [r_disclosure resp]
             \<and> inventors (db w') = inventors (db w) @ r_inventors resp
             \<and> status_history (db w') = status_history (db w) @ r_status_history resp
             \<and> length (r_status_history resp) = 1
             \<and> insert_disclosure_fault env = None
             \<and> insert_history_fault env = None
             \<and> (\<exists>fname content doc ex invs inv_list.
                   filename file = Some fname \<and> file_read file = Inr content
                   \<and> extract_text_from_pdf (fitz_open env) content = Inr doc
                   \<and> extract_disclosure_info (extraction env) doc = Inr ex
                   \<and> py_get ex (ascii ''inventors'') (JArr []) = Inr invs
                   \<and> py_iter invs = Inr inv_list
                   \<and> length (r_inventors resp) = length inv_list
                   \<and> (\<forall>k < length inv_list.
                         py_get (inv_list ! k) (ascii ''name'') (JStr (ascii ''Unknown''))
                           = Inr (JStr (i_name (r_inventors resp ! k)))
                         \<and> i_disclosure_id (r_inventors resp ! k) = o_id (r_disclosure resp)
                         \<and> insert_inventor_fault env k = None))"
  proof (cases res)
    case (Inl err)
    with assms have r: "upload_disclosure env file w = (w', Inl err)" by simp
    note q = upload_Inl [OF r]
    show ?thesis unfolding Inl sum.case by (intro conjI) (rule q)+
  next
    case (Inr resp)
    with assms have r: "upload_disclosure env file w = (w', Inr resp)" by simp
    show ?thesis unfolding Inr sum.case
    proof (rule upload_Inr_rows [OF r])
      fix fname content doc ex invs inv_list
      assume v: "map to_Disclosure (disclosures (db w'))
         = map to_Disclosure (disclosures (db w)) @ [r_disclosure resp]"
        and i: "inventors (db w') = inventors (db w) @ r_inventors resp"
        and h: "status_history (db w') = status_history (db w) @ r_status_history resp"
        and l: "length (r_status_history resp) = 1"
        and f1: "insert_disclosure_fault env = None"
        and f2: "insert_history_fault env = None"
        and s: "filename file = Some fname" "file_read file = Inr content"
          "extract_text_from_pdf (fitz_open env) content = Inr doc"
          "extract_disclosure_info (extraction env) doc = Inr ex"
        and g: "py_get ex (ascii ''inventors'') (JArr []) = Inr invs"
          "py_iter invs = Inr inv_list"
          "length (r_inventors resp) = length inv_list"
          "\<forall>k < length inv_list.
              py_get (inv_list ! k) (ascii ''name'') (JStr (ascii ''Unknown''))
                = Inr (JStr (i_name (r_inventors resp ! k)))
              \<and> i_disclosure_id (r_inventors resp ! k) = o_id (r_disclosure resp)
              \<and> insert_inventor_fault env k = None"
      show "map to_Disclosure (disclosures (db w'))
               = map to_Disclosure (disclosures (db w)) @ [r_disclosure resp]
             \<and> inventors (db w') = inventors (db w) @ r_inventors resp
             \<and> status_history (db w') = status_history (db w) @ r_status_history resp
             \<and> length (r_status_history resp) = 1
             \<and> insert_disclosure_fault env = None
             \<and> insert_history_fault env = None
             \<and> (\<exists>fname content doc ex invs inv_list.
                   filename file = Some fname \<and> file_read file = Inr content
                   \<and> extract_text_from_pdf (fitz_open env) content = Inr doc
                   \<and> extract_disclosure_info (extraction env) doc = Inr ex
                   \<and> py_get ex (ascii ''inventors'') (JArr []) = Inr invs
                   \<and> py_iter invs = Inr inv_list
                   \<and> length (r_inventors resp) = length inv_list
                   \<and> (\<forall>k < length inv_list.
                         py_get (inv_list ! k) (ascii ''name'') (JStr (ascii ''Unknown''))
                           = Inr (JStr (i_name (r_inventors resp ! k)))
                         \<and> i_disclosure_id (r_inventors resp ! k) = o_id (r_disclosure resp)
                         \<and> insert_inventor_fault env k = None))"
        apply (intro conjI)
              apply (rule v)
             apply (rule i)
            apply (rule h)
           apply (rule l)
          apply (rule f1)
         apply (rule f2)
        apply (rule exI [of _ fname], rule exI [of _ content], rule exI [of _ doc],
            rule exI [of _ ex], rule exI [of _ invs], rule exI [of _ inv_list])
        apply (intro conjI)
               apply (rule s(1))
              apply (rule s(2))
             apply (rule s(3))
            apply (rule s(4))
           apply (rule g(1))
          apply (rule g(2))
         apply (rule g(3))
        apply (rule g(4))
        done
    qed
  qed
next
  show "\<forall>fname content doc ex invs inv_list.
          filename file = Some fname \<and> file_read file = Inr content
          \<and> extract_text_from_pdf (fitz_open env) content = Inr doc
          \<and> extract_disclosure_info (extraction env) doc = Inr ex
          \<and> py_get ex (ascii ''inventors'') (JArr []) = Inr invs
          \<and> py_iter invs = Inr inv_list
          \<and> (insert_disclosure_fault env \<noteq> None
               \<or> insert_history_fault env \<noteq> None
               \<or> (\<exists>k < length inv_list. insert_inventor_fault env k \<noteq> None))
          \<longrightarrow> (\<exists>err. res = Inl err)
              \<and> disclosures (db w') = disclosures (db w)
              \<and> inventors (db w') = inventors (db w)
              \<and> status_history (db w') = status_history (db w)"
  proof (intro allI impI, elim conjE)
    fix fname content doc ex invs inv_list
    assume s: "filename file = Some fname" "file_read file = Inr content"
      "extract_text_from_pdf (fitz_open env) content = Inr doc"
      "extract_disclosure_info (extraction env) doc = Inr ex"
      "py_get ex (ascii ''inventors'') (JArr []) = Inr invs"
      "py_iter invs = Inr inv_list"
      and f: "insert_disclosure_fault env \<noteq> None
               \<or> insert_history_fault env \<noteq> None
               \<or> (\<exists>k < length inv_list. insert_inventor_fault env k \<noteq> None)"
    from upload_fault_fails [OF assms s f] obtain err where e: "res = Inl err" by (elim exE)
    with assms have r: "upload_disclosure env file w = (w', Inl err)" by simp
    note q = upload_Inl [OF r]
    show "(\<exists>err. res = Inl err)
              \<and> disclosures (db w') = disclosures (db w)
              \<and> inventors (db w') = inventors (db w)
              \<and> status_history (db w') = status_history (db w)"
      by (intro conjI exI, rule e, rule q(1), rule q(2), rule q(3))
  qed
qed

theorem upload_is_atomic_witness:
  "snd (upload_disclosure (example_env\<lparr>insert_inventor_fault := \<lambda>n. if n = 1 then Some (DatabaseError []) else None\<rparr>)
      example_file empty_world) = Inl (Unhandled (DatabaseError []))
   \<and> disclosures (db (fst (upload_disclosure (example_env\<lparr>insert_inventor_fault := \<lambda>n. if n = 1 then Some (DatabaseError []) else None\<rparr>)
      example_file empty_world))) = []
   \<and> inventors (db (fst (upload_disclosure (example_env\<lparr>insert_inventor_fault := \<lambda>n. if n = 1 then Some (DatabaseError []) else None\<rparr>)
      example_file empty_world))) = []
   \<and> status_history (db (fst (upload_disclosure (example_env\<lparr>insert_inventor_fault := \<lambda>n. if n = 1 then Some (DatabaseError []) else None\<rparr>)
      example_file empty_world))) = []
   \<and> map i_name (inventors (db (fst (upload_disclosure example_env example_file empty_world))))
       = [ascii ''Ada'', ascii ''Bob'']
   \<and> map h_status (status_history (db (fst (upload_disclosure example_env example_file empty_world))))
       = [ascii ''pending'']"
proof -
  let ?env = "example_env\<lparr>insert_inventor_fault := \<lambda>n. if n = 1 then Some (DatabaseError []) else None\<rparr>"
  let ?run = "upload_disclosure ?env example_file empty_world"
  let ?ok = "upload_disclosure example_env example_file empty_world"
  have r: "snd ?run = Inl (Unhandled (DatabaseError []))"
    by (simp add: upload_eval_defs example_defs)
  have h: "?run = (fst ?run, snd ?run)" by simp
  have e1: "disclosures (db empty_world) = []" by (simp add: empty_world_def)
  have e2: "inventors (db empty_world) = []" by (simp add: empty_world_def)
  have e3: "status_history (db empty_world) = []" by (simp add: empty_world_def)
  from upload_is_atomic [OF h, THEN conjunct1]
  have t: "disclosures (db (fst ?run)) = disclosures (db empty_world)
      \<and> inventors (db (fst ?run)) = inventors (db empty_world)
      \<and> status_history (db (fst ?run)) = status_history (db empty_world)"
    by (simp only: r sum.case)
  from t have t1: "disclosures (db (fst ?run)) = disclosures (db empty_world)" by (elim conjE)
  from t have t2: "inventors (db (fst ?run)) = inventors (db empty_world)" by (elim conjE)
  from t have t3: "status_history (db (fst ?run)) = status_history (db empty_world)" by (elim conjE)
  have "\<exists>resp. snd ?ok = Inr resp \<and> map i_name (r_inventors resp) = [ascii ''Ada'', ascii ''Bob'']
      \<and> map h_status (r_status_history resp) = [ascii ''pending'']"
    by (simp add: upload_eval_defs example_defs default_status_def)
  then obtain resp where k: "snd ?ok = Inr resp"
    and k1: "map i_name (r_inventors resp) = [ascii ''Ada'', ascii ''Bob'']"
    and k2: "map h_status (r_status_history resp) = [ascii ''pending'']" by (elim exE conjE)
  have h': "?ok = (fst ?ok, snd ?ok)" by simp
  from upload_is_atomic [OF h', THEN conjunct1]
  have u: "inventors (db (fst ?ok)) = inventors (db empty_world) @ r_inventors resp
      \<and> status_history (db (fst ?ok)) = status_history (db empty_world) @ r_status_history resp"
    by (simp only: k sum.case)
  from u have u1: "inventors (db (fst ?ok)) = inventors (db empty_world) @ r_inventors resp"
    by (elim conjE)
  from u have u2: "status_history (db (fst ?ok)) = status_history (db empty_world) @ r_status_history resp"
    by (elim conjE)
  have g1: "map i_name (inventors (db (fst ?ok))) = [ascii ''Ada'', ascii ''Bob'']"
    unfolding u1 e2 using k1 by simp
  have g2: "map h_status (status_history (db (fst ?ok))) = [ascii ''pending'']"
    unfolding u2 e3 using k2 by simp
  show ?thesis
    by (intro conjI, rule r, rule trans [OF t1 e1], rule trans [OF t2 e2], rule trans [OF t3 e3],
        rule g1, rule g2)
qed

subsection \<open>The attachment of the PDF\<close>

lemma transaction_world:
  assumes "transaction body w = (w', r)"
  shows "\<exists>w1. body w = (w1, r) \<and> objects w' = objects w1 \<and> log w' = log w1
           \<and> (\<forall>x. r = Inr x \<longrightarrow> w' = w1)"
  using assms by (auto simp: transaction_def split: prod.splits sum.splits)

lemma create_disclosure_world:
  assumes "insert_disclosure env dn ex fname (db w) = Inr (d1, row)"
    and "attach_pdf env row fname content (w\<lparr>db := d1\<rparr>) = (w2, disclosure2, aborted)"
    and "create_disclosure env dn ex fname content w = (w', r)"
  shows "objects w' = objects w2" and "log w' = log w2"
  using assms by (auto simp: create_disclosure_def split: sum.splits prod.splits)

lemma create_disclosure_after_failed_attach:
  assumes "insert_disclosure env dn ex fname (db w) = Inr (d1, row)"
    and "attach_pdf env row fname content (w\<lparr>db := d1\<rparr>) = (w2, row, False)"
    and "db w2 = d1"
    and "py_get ex (ascii ''inventors'') (JArr []) = Inr invs" and "py_iter invs = Inr inv_list"
    and "insert_inventors env (d_id row) False 0 inv_list d1 = Inr (d3, rows)"
    and "insert_history_fault env = None"
  shows "\<exists>resp. snd (create_disclosure env dn ex fname content w) = Inr resp"
    and "disclosures (db (fst (create_disclosure env dn ex fname content w))) = disclosures d1"
  using assms insert_inventors_Inr [of env "d_id row" False 0 inv_list d1 d3 rows]
  by (simp_all add: create_disclosure_def insert_history_def append_history_def statement_fails_def Let_def)

lemma attach_pdf_after_upload:
  assumes "upload_pdf env (uuid_str env (d_id row)) fname content w = (wb, blob)"
    and "attach_pdf env row fname content w = (w2, disclosure2, aborted)"
  shows "objects w2 = objects wb"
    and "blob = Inl e \<Longrightarrow>
           w2 = logger WARNING (ascii ''Failed to upload PDF to storage: '' @ str_of_exn env e) wb
           \<and> disclosure2 = row \<and> \<not> aborted"
  using assms by (auto simp: attach_pdf_def logger_def split: sum.splits option.splits)

text \<open>
  C1, as the code has it. The attachment of the PDF runs inside the creation
  transaction, right after the disclosure row is inserted and before the inventor rows
  and the history row are: once the disclosure row is inserted and the object store
  accepts the file, the file is in the object store at the end of the request, whether
  the transaction then commits or rolls back. A failure of the attachment is caught and
  logged as a warning, leaves the object store as it was and \<open>pdf_object_key\<close> null, and
  the creation succeeds when the remaining inserts do.
\<close>

theorem blob_attached_inside_transaction:
  assumes pre: "filename file = Some fname" "fname \<noteq> []"
      "endswith (lower fname) (ascii ''.pdf'')" "file_read file = Inr content"
      "extract_text_from_pdf (fitz_open env) content = Inr doc" "\<not> length (strip doc) < 50"
      "extract_disclosure_info (extraction env) doc = Inr ex"
    and docket: "get_next_docket_number (docket_seq (db w)) = (seq1, dn)"
    and ins: "insert_disclosure env dn ex fname ((db w)\<lparr>docket_seq := seq1\<rparr>) = Inr (d1, row)"
    and up: "upload_pdf env (uuid_str env (d_id row)) fname content (w\<lparr>db := d1\<rparr>) = (wb, blob)"
    and run: "upload_disclosure env file w = (w', res)"
  shows "case blob of
       Inr object_key \<Rightarrow> objects w' object_key = Some content
     | Inl e \<Rightarrow>
         objects w' = objects w
         \<and> (WARNING, ascii ''Failed to upload PDF to storage: '' @ str_of_exn env e) \<in> set (log w')
         \<and> d_pdf_object_key row = None
         \<and> (\<forall>invs inv_list d3 rows.
               py_get ex (ascii ''inventors'') (JArr []) = Inr invs \<and> py_iter invs = Inr inv_list
               \<and> insert_inventors env (d_id row) False 0 inv_list d1 = Inr (d3, rows)
               \<and> insert_history_fault env = None
               \<longrightarrow> (\<exists>resp. res = Inr resp)
                   \<and> disclosures (db w') = disclosures (db w) @ [row])"
proof -
  let ?w0 = "w\<lparr>db := (db w)\<lparr>docket_seq := seq1\<rparr>\<rparr>"
  let ?body = "create_disclosure env dn ex fname content"
  have ne: "doc \<noteq> []" using pre(6) by (auto simp: strip_empty)
  have u: "upload_disclosure env file w =
      (case transaction ?body ?w0 of
         (w1, Inl e) \<Rightarrow> (w1, Inl (Unhandled e))
       | (w1, Inr resp) \<Rightarrow> (w1, Inr resp))"
    using pre ne docket by (simp add: upload_disclosure_def)
  obtain wt rt where t: "transaction ?body ?w0 = (wt, rt)"
    by (cases "transaction ?body ?w0") auto
  from u t run have w': "w' = wt"
    and res: "res = (case rt of Inl e \<Rightarrow> Inl (Unhandled e) | Inr resp \<Rightarrow> Inr resp)"
    by (auto split: sum.splits)
  from transaction_world [OF t]
  obtain wc where c: "?body ?w0 = (wc, rt)" and tw: "objects wt = objects wc" "log wt = log wc"
    and tr: "\<And>x. rt = Inr x \<Longrightarrow> wt = wc"
    by blast
  have ins0: "insert_disclosure env dn ex fname (db ?w0) = Inr (d1, row)" using ins by simp
  have up0: "upload_pdf env (uuid_str env (d_id row)) fname content (?w0\<lparr>db := d1\<rparr>) = (wb, blob)"
    using up by simp
  obtain w2 disclosure2 aborted where
    at: "attach_pdf env row fname content (?w0\<lparr>db := d1\<rparr>) = (w2, disclosure2, aborted)"
    by (cases "attach_pdf env row fname content (?w0\<lparr>db := d1\<rparr>)") auto
  note cw = create_disclosure_world [OF ins0 at c]
  note aw = attach_pdf_after_upload [OF up0 at]
  have o: "objects w' = objects wb" using w' tw(1) cw(1) aw(1) by simp
  show ?thesis
  proof (cases blob)
    case (Inr object_key)
    with up have "objects wb object_key = Some content"
      using upload_pdf_Inr(2) [of env _ fname content "w\<lparr>db := d1\<rparr>" wb object_key] by simp
    with o Inr show ?thesis by simp
  next
    case (Inl e)
    from aw(2) [OF Inl] have w2: "w2 = logger WARNING
        (ascii ''Failed to upload PDF to storage: '' @ str_of_exn env e) wb"
      and d2: "disclosure2 = row" and ab: "\<not> aborted" by simp_all
    from up Inl have ob: "objects wb = objects w" "db wb = d1"
      using upload_pdf_Inl [of env _ fname content "w\<lparr>db := d1\<rparr>" wb e] by simp_all
    have lg: "(WARNING, ascii ''Failed to upload PDF to storage: '' @ str_of_exn env e) \<in> set (log w')"
      using w' tw(2) cw(2) w2 by (simp add: logger_def)
    have key: "d_pdf_object_key row = None" using insert_disclosure_Inr(4) [OF ins] .
    have rest: "(\<exists>resp. res = Inr resp) \<and> disclosures (db w') = disclosures (db w) @ [row]"
      if h: "py_get ex (ascii ''inventors'') (JArr []) = Inr invs" "py_iter invs = Inr inv_list"
        "insert_inventors env (d_id row) False 0 inv_list d1 = Inr (d3, rows)"
        "insert_history_fault env = None" for invs inv_list d3 rows
    proof -
      have at': "attach_pdf env row fname content (?w0\<lparr>db := d1\<rparr>) = (w2, row, False)"
        using at d2 ab by simp
      have db2: "db w2 = d1" using w2 ob(2) by (simp add: logger_def)
      note f = create_disclosure_after_failed_attach [OF ins0 at' db2 h]
      from f(1) c obtain resp where rt: "rt = Inr resp" by auto
      with tr have "wt = wc" by simp
      with f(2) c w' have "disclosures (db w') = disclosures d1" by simp
      moreover have "disclosures d1 = disclosures (db w) @ [row]"
        using insert_disclosure_Inr(1) [OF ins] by simp
      ultimately show ?thesis using res rt by simp
    qed
    from o ob(1) lg key rest Inl show ?thesis by simp
  qed
qed

text \<open>
  C1, as the claim states it, at an upload whose history insert fails: the request fails
  and no disclosure row is left, so the transaction has not committed, yet the file is
  in the object store.
\<close>

theorem blob_written_without_commit:
  "snd (upload_disclosure (example_env\<lparr>insert_history_fault := Some (DatabaseError [])\<rparr>)
          example_file empty_world) = Inl (Unhandled (DatabaseError []))
   \<and> disclosures (db (fst (upload_disclosure
          (example_env\<lparr>insert_history_fault := Some (DatabaseError [])\<rparr>)
          example_file empty_world))) = []
   \<and> objects (fst (upload_disclosure
          (example_env\<lparr>insert_history_fault := Some (DatabaseError [])\<rparr>)
          example_file empty_world)) (ascii ''disclosures/7/idea.PDF'') = Some [37, 80, 68, 70]"
  by (simp add: upload_eval_defs example_defs digits10.simps)

theorem blob_attached_inside_transaction_witness:
  "objects (fst (upload_disclosure (example_env\<lparr>put_object_fault := Some (ClientError [])\<rparr>)
       example_file empty_world)) = objects empty_world
   \<and> (WARNING, ascii ''Failed to upload PDF to storage: failed'')
       \<in> set (log (fst (upload_disclosure (example_env\<lparr>put_object_fault := Some (ClientError [])\<rparr>)
             example_file empty_world)))
   \<and> (\<exists>resp. snd (upload_disclosure (example_env\<lparr>put_object_fault := Some (ClientError [])\<rparr>)
             example_file empty_world) = Inr resp)
   \<and> map d_pdf_object_key (disclosures (db (fst (upload_disclosure
          (example_env\<lparr>put_object_fault := Some (ClientError [])\<rparr>) example_file empty_world))))
       = [None]"
proof -
  let ?env = "example_env\<lparr>put_object_fault := Some (ClientError [])\<rparr>"
  let ?run = "upload_disclosure ?env example_file empty_world"
  let ?row = "\<lparr>d_id = 7, d_docket_number = ascii ''IDF-0042'', d_title = ascii ''T'',
      d_description = ascii ''D'', d_key_differences = ascii ''K'', d_status = ascii ''pending'',
      d_review_notes = None, d_original_filename = Some (ascii ''idea.PDF''),
      d_pdf_object_key = None, d_created_at = 1000, d_updated_at = 1000\<rparr>"
  let ?d1 = "\<lparr>disclosures = [?row], inventors = [], status_history = [],
      docket_seq = 42, uuid_supply = 8\<rparr>"
  let ?wb = "logger ERROR (ascii ''Failed to upload PDF: failed'') (empty_world\<lparr>db := ?d1\<rparr>)"
  let ?i1 = "\<lparr>i_id = 8, i_disclosure_id = 7, i_name = ascii ''Ada'',
      i_email = Some (ascii ''ada@x.org''), i_created_at = 1000\<rparr>"
  let ?i2 = "\<lparr>i_id = 9, i_disclosure_id = 7, i_name = ascii ''Bob'',
      i_email = None, i_created_at = 1000\<rparr>"
  let ?invs = "[JObj [(ascii ''name'', JStr (ascii ''Ada'')), (ascii ''email'', JStr (ascii ''ada@x.org''))],
               JObj [(ascii ''name'', JStr (ascii ''Bob''))]]"
  have h1: "filename example_file = Some (ascii ''idea.PDF'')" by (simp add: example_file_def)
  have h2: "ascii ''idea.PDF'' \<noteq> []" by (simp add: ascii_def)
  have h3: "endswith (lower (ascii ''idea.PDF'')) (ascii ''.pdf'')"
    by (simp add: endswith_def lower_def ascii_def)
  have h4: "file_read example_file = Inr [37, 80, 68, 70]" by (simp add: example_file_def)
  have h5: "extract_text_from_pdf (fitz_open ?env) [37, 80, 68, 70] = Inr (replicate 60 120)"
    by (simp add: example_defs extract_text_from_pdf_def strip_def lstrip_def rstrip_def isspace_def)
  have h6: "\<not> length (strip (replicate 60 120)) < 50"
    by (simp add: strip_def lstrip_def rstrip_def isspace_def)
  have h7: "extract_disclosure_info (extraction ?env) (replicate 60 120) = Inr two_inventor_response"
    by (simp add: example_defs extract_disclosure_info_def parse_extraction_def
        required_fields_def ensure_inventors_def ascii_def)
  have h8: "get_next_docket_number (docket_seq (db empty_world)) = (42, ascii ''IDF-0042'')"
    unfolding empty_world_def by code_simp
  have h9: "insert_disclosure ?env (ascii ''IDF-0042'') two_inventor_response (ascii ''idea.PDF'')
       ((db empty_world)\<lparr>docket_seq := 42\<rparr>) = Inr (?d1, ?row)"
    by (simp add: insert_disclosure_def example_defs ascii_def default_status_def Let_def)
  have h10: "upload_pdf ?env (uuid_str ?env (d_id ?row)) (ascii ''idea.PDF'') [37, 80, 68, 70]
       (empty_world\<lparr>db := ?d1\<rparr>) = (?wb, Inl (ClientError []))"
    by (simp add: upload_pdf_def ensure_bucket_exists_def head_bucket_def example_defs
        str_of_exn_def logger_def ascii_def Let_def)
  have h11: "?run = (fst ?run, snd ?run)" by simp
  note t = blob_attached_inside_transaction [OF h1 h2 h3 h4 h5 h6 h7 h8 h9 h10 h11]
  have s: "str_of_exn ?env (ClientError []) = ascii ''failed''"
    by (simp add: str_of_exn_def example_defs)
  from t have a: "objects (fst ?run) = objects empty_world" by simp
  from t have b: "(WARNING, ascii ''Failed to upload PDF to storage: '' @ ascii ''failed'')
       \<in> set (log (fst ?run))" by (simp add: s)
  have g1: "py_get two_inventor_response (ascii ''inventors'') (JArr []) = Inr (JArr ?invs)"
    by (simp add: two_inventor_response_def ascii_def)
  have g2: "py_iter (JArr ?invs) = Inr ?invs" by simp
  have g3: "insert_inventors ?env (d_id ?row) False 0 ?invs ?d1
      = Inr (?d1\<lparr>inventors := [?i1, ?i2], uuid_supply := 10\<rparr>, [?i1, ?i2])"
    by (simp add: insert_inventor_def statement_fails_def example_defs ascii_def Let_def)
  have g4: "insert_history_fault ?env = None" by (simp add: example_defs)
  from t have "\<forall>invs inv_list d3 rows.
               py_get two_inventor_response (ascii ''inventors'') (JArr []) = Inr invs
               \<and> py_iter invs = Inr inv_list
               \<and> insert_inventors ?env (d_id ?row) False 0 inv_list ?d1 = Inr (d3, rows)
               \<and> insert_history_fault ?env = None
               \<longrightarrow> (\<exists>resp. snd ?run = Inr resp)
                   \<and> disclosures (db (fst ?run)) = disclosures (db empty_world) @ [?row]"
    by simp
  with g1 g2 g3 g4 have c: "(\<exists>resp. snd ?run = Inr resp)
      \<and> disclosures (db (fst ?run)) = disclosures (db empty_world) @ [?row]" by blast
  then have d: "map d_pdf_object_key (disclosures (db (fst ?run))) = [None]"
    by (simp add: empty_world_def)
  have e: "ascii ''Failed to upload PDF to storage: '' @ ascii ''failed''
      = ascii ''Failed to upload PDF to storage: failed''" by (simp add: ascii_def)
  from a b c d e show ?thesis by (simp only:) 
qed

section \<open>Properties of the update\<close>

lemma assign_id: "d_id (assign a r) = d_id r"
  by (induction a r rule: assign.induct) simp_all

lemma fold_assign_id: "d_id (fold assign updates r) = d_id r"
  by (induction updates arbitrary: r) (simp_all add: assign_id)

lemma update_row_id: "d_id (update_row updates t r) = d_id r"
  by (simp add: update_row_def fold_assign_id)

lemma find_update_rows:
  "find (\<lambda>r. d_id r = did) (map (\<lambda>r. if d_id r = did then update_row updates t r else r) rows)
     = map_option (update_row updates t) (find (\<lambda>r. d_id r = did) rows)"
  by (induction rows) (simp_all add: update_row_id)



lemma update_disclosure_known:
  assumes "find (\<lambda>r. d_id r = did) (disclosures (db w)) = Some existing"
  shows "update_disclosure env did update w =
     (case build_updates update (d_status existing) of
        Inl err \<Rightarrow> (w, Inl err)
      | Inr (updates, status_changed) \<Rightarrow>
          if updates = [] then (w, Inl (HTTPException 400 (ascii ''No fields to update'')))
          else if status_changed then
            (case u_status update of
               None \<Rightarrow> (w\<lparr>db := update_rows updates (now env) did (db w)\<rparr>,
                         Inl (Unhandled NotNullViolationError))
             | Some st \<Rightarrow>
                 (w\<lparr>db := fst (append_history (now env) did st
                               (update_rows updates (now env) did (db w)))\<rparr>,
                  Inr (to_Disclosure (update_row updates (now env) existing))))
          else (w\<lparr>db := update_rows updates (now env) did (db w)\<rparr>,
                Inr (to_Disclosure (update_row updates (now env) existing))))"
  using assms
  by (simp add: update_disclosure_def Let_def update_rows_def find_update_rows
      split: sum.splits prod.splits option.splits)

lemma build_updates_status:
  "u_status update = Some st \<Longrightarrow> st \<in> set valid_statuses \<Longrightarrow>
   \<exists>updates. build_updates update current = Inr (updates, st \<noteq> current) \<and> updates \<noteq> []"
  by (simp add: build_updates_def Let_def)

lemma build_updates_no_status:
  "u_status update = None \<Longrightarrow> \<exists>updates. build_updates update current = Inr (updates, False)"
  by (simp add: build_updates_def Let_def)

lemma build_updates_invalid:
  "u_status update = Some st \<Longrightarrow> st \<notin> set valid_statuses \<Longrightarrow>
   build_updates update current = Inl (HTTPException 400 (ascii ''Invalid status value''))"
  by (simp add: build_updates_def Let_def)

text \<open>
  C4. An update of a stored disclosure whose patch carries a status outside the four
  valid values is rejected with status 400 and the detail "Invalid status value", and
  the state after the request is the state before it, whatever other fields the patch
  carries.
\<close>

theorem invalid_status_rejects_update:
  assumes "find (\<lambda>r. d_id r = did) (disclosures (db w)) = Some existing"
    and "u_status update = Some st" and "st \<notin> set valid_statuses"
  shows "update_disclosure env did update w
           = (w, Inl (HTTPException 400 (ascii ''Invalid status value'')))
    \<and> (DisclosureUpdate_validate body = Inr update \<longrightarrow>
         patch_disclosure env did body w
           = (w, Inl (HTTPException 400 (ascii ''Invalid status value''))))"
  using assms
  by (simp add: update_disclosure_known build_updates_invalid patch_disclosure_def)

theorem invalid_status_rejects_update_witness:
  "update_disclosure example_env 7
     (empty_update\<lparr>u_title := Some (ascii ''New title''), u_status := Some (ascii ''bogus'')\<rparr>)
     one_disclosure_world
   = (one_disclosure_world, Inl (HTTPException 400 (ascii ''Invalid status value'')))"
proof -
  have h1: "find (\<lambda>r. d_id r = 7) (disclosures (db one_disclosure_world)) = Some stored_disclosure"
    by (simp add: one_disclosure_world_def stored_disclosure_def)
  have h2: "u_status (empty_update\<lparr>u_title := Some (ascii ''New title''),
      u_status := Some (ascii ''bogus'')\<rparr>) = Some (ascii ''bogus'')" by simp
  have h3: "ascii ''bogus'' \<notin> set valid_statuses" by (simp add: valid_statuses_def ascii_def)
  from invalid_status_rejects_update [OF h1 h2 h3, of example_env JNull]
  show ?thesis by (elim conjE)
qed








end
